theory Spec2Isabelle
  imports Main "HOL-Library.Word"
begin

section \<open>The hardware wallet provider of packages/btc-ledger-wallet/src/wallet.ts\<close>

text \<open>
  A shallow embedding of the class \<open>BitcoinLedgerProvider\<close>. The collaborators the class
  calls (the signing device, the data provider, the script library and the coin selection
  library) are not part of the file; they are the fields of an environment record. The
  general theorems hold for every environment; the theorems that run the code do so on the
  concrete environment defined before the properties.
\<close>

subsection \<open>Numbers and byte buffers\<close>

text \<open>
  A JavaScript number, restricted to the values the wallet works with: whole numbers
  (amounts in the smallest unit, fees, indices) and \<open>NaN\<close>. Fractions and infinities are
  outside the model. A number is a double: where the code writes one as text, the text is
  that of the double, which from \<open>2^53\<close> on need not spell the same whole number.
\<close>

datatype number = Num int | NaN

type_synonym byte = "8 word"

text \<open>Arithmetic and comparison as JavaScript has them: \<open>NaN\<close> absorbs, and is equal to nothing.\<close>

fun plus_number :: "number \<Rightarrow> number \<Rightarrow> number" where
  "plus_number (Num a) (Num b) = Num (a + b)"
| "plus_number _ _ = NaN"

fun minus_number :: "number \<Rightarrow> number \<Rightarrow> number" where
  "minus_number (Num a) (Num b) = Num (a - b)"
| "minus_number _ _ = NaN"

fun strict_eq :: "number \<Rightarrow> number \<Rightarrow> bool" where
  "strict_eq (Num a) (Num b) = (a = b)"
| "strict_eq _ _ = False"

text \<open>Truthiness of a number: \<open>0\<close> and \<open>NaN\<close> are falsy.\<close>

fun truthy :: "number \<Rightarrow> bool" where
  "truthy (Num a) = (a \<noteq> 0)"
| "truthy NaN = False"

text \<open>\<open>Math.round\<close>; on a whole number and on \<open>NaN\<close> it is the identity.\<close>

fun Math_round :: "number \<Rightarrow> number" where
  "Math_round (Num a) = Num a"
| "Math_round NaN = NaN"

definition hex_char :: "nat \<Rightarrow> char" where
  "hex_char d = ''0123456789abcdef'' ! d"

function hex_digits :: "nat \<Rightarrow> string" where
  "hex_digits n = (if n < 16 then [hex_char n] else hex_digits (n div 16) @ [hex_char (n mod 16)])"
  by pat_completeness auto
termination
  by (relation "measure id") auto

declare hex_digits.simps [simp del]

text \<open>
  The double nearest to a whole number that is not negative: 53 significant bits, a tie
  going to the even one. \<open>exponent v\<close> is the number of low bits that do not fit.
\<close>

function exponent :: "int \<Rightarrow> nat" where
  "exponent v = (if v < 2 ^ 53 then 0 else Suc (exponent (v div 2)))"
  by pat_completeness auto
termination
proof (relation "measure nat")
  show "wf (measure nat)" by simp
next
  fix v :: int
  assume "\<not> v < 2 ^ 53"
  then have "0 < v" by simp
  then show "(v div 2, v) \<in> measure nat" by simp
qed

declare exponent.simps [simp del]

definition to_double :: "int \<Rightarrow> int" where
  "to_double v =
     (let e = exponent v; q = v div 2 ^ e; r = v mod 2 ^ e;
          up = (2 ^ e < 2 * r \<or> (2 * r = 2 ^ e \<and> odd q))
      in (if up then q + 1 else q) * 2 ^ e)"

text \<open>
  \<open>String(x)\<close> for a whole double \<open>x\<close>, as the language defines it: the fewest significant
  digits \<open>k\<close> such that some \<open>k\<close> digit number, followed by zeros, is read back as \<open>x\<close>;
  of two such numbers the one nearer to \<open>x\<close>, of two equally near the even one. At \<open>k\<close>
  digits the numbers to try are the two multiples of \<open>p = 10^(n - k)\<close> around \<open>x\<close>, where
  \<open>n\<close> is the number of digits of \<open>x\<close>. The result is the whole number the text spells.
\<close>

definition candidate :: "int \<Rightarrow> int \<Rightarrow> int option" where
  "candidate x p =
     (let lo = x div p * p; hi = lo + p;
          lo_ok = (to_double lo = x); hi_ok = (to_double hi = x)
      in if lo_ok \<and> hi_ok
         then Some (if x - lo < hi - x \<or> (x - lo = hi - x \<and> even (x div p)) then lo else hi)
         else if lo_ok then Some lo
         else if hi_ok then Some hi
         else None)"

function decimal_length :: "int \<Rightarrow> nat" where
  "decimal_length x = (if x < 10 then 1 else Suc (decimal_length (x div 10)))"
  by pat_completeness auto
termination
  by (relation "measure nat") auto

declare decimal_length.simps [simp del]

function shortest_decimal :: "int \<Rightarrow> nat \<Rightarrow> nat \<Rightarrow> int" where
  "shortest_decimal x n k =
     (if n \<le> k then x
      else (case candidate x (10 ^ (n - k)) of
              Some v \<Rightarrow> v
            | None \<Rightarrow> shortest_decimal x n (Suc k)))"
  by pat_completeness auto
termination
  by (relation "measure (\<lambda>(x, n, k). n - k)") auto

declare shortest_decimal.simps [simp del]

text \<open>
  The whole number that \<open>String(v)\<close> spells. A whole number that is no double stands for
  the double nearest to it, as its literal does.
\<close>

definition Number_toString_value :: "int \<Rightarrow> int" where
  "Number_toString_value v = (let x = to_double v in shortest_decimal x (decimal_length x) 1)"

text \<open>
  \<open>new BigNumber(x).toString(16)\<close>. The constructor reads a number through \<open>String(x)\<close>;
  the text in base 16 has lower case digits, no leading zero, and a minus sign.
\<close>

fun BigNumber_toString16 :: "number \<Rightarrow> string" where
  "BigNumber_toString16 (Num a) =
     (if a < 0 then CHR ''-'' # hex_digits (nat (Number_toString_value (- a)))
      else hex_digits (nat (Number_toString_value a)))"
| "BigNumber_toString16 NaN = ''NaN''"

text \<open>\<open>String.prototype.padStart(len, '0')\<close>.\<close>

definition padStart :: "string \<Rightarrow> nat \<Rightarrow> char \<Rightarrow> string" where
  "padStart s len c = replicate (len - length s) c @ s"

definition padHexStart :: "string \<Rightarrow> nat \<Rightarrow> string" where
  "padHexStart hex len0 =
     (let len = (if len0 \<noteq> 0 then len0 else length hex);
          len = len + len mod 2
      in padStart hex len (CHR ''0''))"

definition hex_val :: "char \<Rightarrow> nat option" where
  "hex_val c = map_of (zip ''0123456789abcdef'' [0 ..< 16] @ zip ''ABCDEF'' [10 ..< 16]) c"

text \<open>
  \<open>Buffer.from(s, 'hex')\<close>: two digits make a byte; decoding stops at the first pair that
  is not two hexadecimal digits, and a single trailing character is dropped.
\<close>

fun Buffer_from_hex :: "string \<Rightarrow> byte list" where
  "Buffer_from_hex (a # b # rest) =
     (case hex_val a of
        None \<Rightarrow> []
      | Some x \<Rightarrow>
          (case hex_val b of
             None \<Rightarrow> []
           | Some y \<Rightarrow> of_nat (16 * x + y) # Buffer_from_hex rest))"
| "Buffer_from_hex _ = []"

definition getAmountBuffer :: "number \<Rightarrow> byte list" where
  "getAmountBuffer amount =
     (let hexAmount = BigNumber_toString16 (Math_round amount);
          hexAmount = padHexStart hexAmount 16;
          valueBuffer = Buffer_from_hex hexAmount
      in rev valueBuffer)"

subsection \<open>Errors\<close>

text \<open>
  The two errors the class throws by name, the \<open>TypeError\<close> JavaScript raises when a
  property of \<open>undefined\<close> is read, the failure of the script library on a destination it
  cannot encode, and \<open>UnsupportedAddressFormat\<close>, which the specification names and no
  path of the source raises.
\<close>

datatype error =
    ADDRESS_MISSING_IN_LEDGER
  | NOT_ENOUGHT_BALANCE
  | TypeError
  | NoMatchingScript
  | UnsupportedAddressFormat

subsection \<open>Addresses, unspent outputs and the collaborators\<close>

type_synonym pubkey = string
type_synonym script = string

record network =
  coinType :: string

text \<open>
  Modelled from the spec: the class \<open>Address\<close> of the package btc-wallet, with the five
  constructor arguments the wallet passes. The address text is absent when the address
  format is not one of the three the wallet encodes.
\<close>

record Address =
  a_address :: "string option"
  a_derivationPath :: string
  a_publicKey :: pubkey
  a_index :: nat
  a_change :: bool

text \<open>
  Modelled from the spec: \<open>Address.equals\<close> of the package btc-wallet; equality is by
  address-string value.
\<close>

definition equals :: "Address \<Rightarrow> string \<Rightarrow> bool" where
  "equals a s = (a_address a = Some s)"

text \<open>
  An unspent output as the provider reports it. \<open>p_amount\<close> is the amount in coins, a
  decimal with at most eight fractional digits, held as its count of \<open>1e-8\<close> units.
\<close>

record provider_utxo =
  p_txid :: string
  p_vout :: nat
  p_address :: string
  p_amount :: int

text \<open>The object \<open>{...utxo, value, derivationPath}\<close> handed to coin selection.\<close>

record utxo =
  u_txid :: string
  u_vout :: nat
  u_address :: string
  u_amount :: int
  u_value :: number
  u_derivationPath :: string

text \<open>
  An output as the coin selection library takes and returns it: a plain object with a
  \<open>value\<close> and, on the request the wallet makes, an \<open>id\<close>.
\<close>

record cs_output =
  o_id :: "string option"
  o_value :: number

record cs_result =
  cs_inputs :: "utxo list option"
  cs_outputs :: "cs_output list option"
  cs_fee :: "number option"

text \<open>
  A requested payment \<open>{ to, value }\<close>, its value taken as a number, and the metadata
  object with the two fields the wallet reads and writes.
\<close>

record payment =
  to :: string
  "value" :: number

record metadata =
  eventName :: string
  inputAmount :: "number option"

record ledger_output =
  lo_amount :: "byte list"
  lo_script :: script

text \<open>
  What \<open>address.toOutputScript\<close> is handed: a destination text, an \<open>Address\<close> object or
  \<open>undefined\<close>.
\<close>

datatype script_target = Text string | Object Address | Undefined

text \<open>
  The arguments of \<open>createPaymentTransactionNew\<close> that the wallet fills in; the lock time,
  the signature hash type and the additional flags it always passes as \<open>undefined\<close>.
\<close>

record signer_call =
  sc_inputs :: "(string \<times> nat) list"
  sc_paths :: "string list"
  sc_changePath :: string
  sc_outputScriptHex :: string
  sc_segwit :: bool
  sc_additionals :: "string list option"

record env =
  derivePublicKey :: "string \<Rightarrow> string \<Rightarrow> string \<Rightarrow> pubkey"
  p2pkh :: "pubkey \<Rightarrow> network \<Rightarrow> string option"
  p2sh_p2wpkh :: "pubkey \<Rightarrow> network \<Rightarrow> string option"
  p2wpkh :: "pubkey \<Rightarrow> network \<Rightarrow> string option"
  getUnspentTransactions :: "Address list \<Rightarrow> provider_utxo list"
  getFeePerByte :: number
  getRawTransaction :: "string \<Rightarrow> string"
  splitTransaction :: "string \<Rightarrow> string"
  coinselect :: "utxo list \<Rightarrow> cs_output list \<Rightarrow> number \<Rightarrow> cs_result"
  embed :: "string \<Rightarrow> script"
  toOutputScript :: "script_target \<Rightarrow> network \<Rightarrow> script option"
  serializeTransactionOutputs :: "payment list \<Rightarrow> string"
  createPaymentTransactionNew :: "signer_call \<Rightarrow> string"
  sendRawTransaction :: "string \<Rightarrow> metadata option \<Rightarrow> string"

text \<open>
  \<open>derivePublicKey e format path subPath\<close> is the public key of \<open>subPath\<close> under the
  account key the device reports when asked for \<open>path\<close> with \<open>format\<close> (the wallet caches
  that key by path; the cache changes no result and is left out). The device is taken to
  answer: one that cannot be reached, or that refuses the format it is handed, is outside
  the model, and nothing below says that a derivation succeeds on a real device.
  \<open>toOutputScript\<close> gives \<open>None\<close> where the library throws.
\<close>

subsection \<open>The wallet and its addresses\<close>

record wallet =
  w_network :: network
  w_derivationPath :: string
  w_addressType :: string

definition ADDRESS_PREFIX :: "string \<Rightarrow> nat option" where
  "ADDRESS_PREFIX = map_of [(''legacy'', 44), (''p2sh-segwit'', 49), (''bech32'', 84)]"

definition dec_char :: "nat \<Rightarrow> char" where
  "dec_char d = ''0123456789'' ! d"

function dec_digits :: "nat \<Rightarrow> string" where
  "dec_digits n = (if n < 10 then [dec_char n] else dec_digits (n div 10) @ [dec_char (n mod 10)])"
  by pat_completeness auto
termination
  by (relation "measure id") auto

declare dec_digits.simps [simp del]

text \<open>
  \<open>ADDRESS_PREFIX[addressType]\<close> inside the template literal. \<open>ADDRESS_PREFIX\<close> holds its
  three own keys; a name that every object inherits (\<open>toString\<close>, \<open>constructor\<close>,
  \<open>__proto__\<close> and the like) reads as the inherited value, whose text is the engine's and
  is the parameter \<open>inherited\<close>; any other name reads as \<open>undefined\<close>.
\<close>

definition prefix_text :: "(string \<Rightarrow> string option) \<Rightarrow> string \<Rightarrow> string" where
  "prefix_text inherited addressType =
     (case ADDRESS_PREFIX addressType of
        Some n \<Rightarrow> dec_digits n
      | None \<Rightarrow> (case inherited addressType of Some shown \<Rightarrow> shown | None \<Rightarrow> ''undefined''))"

text \<open>The constructor. It looks the prefix up and never throws.\<close>

definition "constructor" :: "(string \<Rightarrow> string option) \<Rightarrow> network \<Rightarrow> string \<Rightarrow> error + wallet" where
  "constructor inherited net addressType =
     Inr \<lparr> w_network = net,
           w_derivationPath =
             prefix_text inherited addressType @ [CHR 0x27, CHR ''/''] @
             coinType net @ [CHR 0x27, CHR ''/'', CHR ''0'', CHR 0x27, CHR ''/''],
           w_addressType = addressType \<rparr>"

text \<open>No branch throws; the result is \<open>None\<close> where the source falls off the end and returns \<open>undefined\<close>.\<close>

definition getAddressFromPublicKey :: "env \<Rightarrow> wallet \<Rightarrow> pubkey \<Rightarrow> string option" where
  "getAddressFromPublicKey e w publicKey =
     (if w_addressType w = ''legacy'' then p2pkh e publicKey (w_network w)
      else if w_addressType w = ''p2sh-segwit'' then p2sh_p2wpkh e publicKey (w_network w)
      else if w_addressType w = ''bech32'' then p2wpkh e publicKey (w_network w)
      else None)"

text \<open>The format \<open>_getWalletPublicKey\<close> hands to the device.\<close>

definition device_format :: "wallet \<Rightarrow> string" where
  "device_format w = (if w_addressType w = ''p2sh-segwit'' then ''p2sh'' else w_addressType w)"

definition derive_at :: "env \<Rightarrow> wallet \<Rightarrow> bool \<Rightarrow> nat \<Rightarrow> Address" where
  "derive_at e w change currentIndex =
     (let changeVal = (if change then ''1'' else ''0'');
          subPath = changeVal @ ''/'' @ dec_digits currentIndex;
          publicKey = derivePublicKey e (device_format w) (w_derivationPath w) subPath;
          address = getAddressFromPublicKey e w publicKey;
          path = w_derivationPath w @ subPath
      in \<lparr> a_address = address, a_derivationPath = path, a_publicKey = publicKey,
           a_index = currentIndex, a_change = change \<rparr>)"

definition getLedgerAddresses :: "env \<Rightarrow> wallet \<Rightarrow> nat \<Rightarrow> nat \<Rightarrow> bool \<Rightarrow> Address list" where
  "getLedgerAddresses e w startingIndex numAddresses change =
     map (derive_at e w change) [startingIndex ..< startingIndex + numAddresses]"

definition getAddresses :: "env \<Rightarrow> wallet \<Rightarrow> nat \<Rightarrow> nat \<Rightarrow> bool \<Rightarrow> Address list" where
  "getAddresses e w startingIndex numAddresses change =
     getLedgerAddresses e w startingIndex numAddresses change"

definition getChangeAddresses :: "env \<Rightarrow> wallet \<Rightarrow> nat \<Rightarrow> nat \<Rightarrow> Address list" where
  "getChangeAddresses e w startingIndex numAddresses =
     getAddresses e w startingIndex numAddresses True"

definition getNonChangeAddresses :: "env \<Rightarrow> wallet \<Rightarrow> nat \<Rightarrow> nat \<Rightarrow> Address list" where
  "getNonChangeAddresses e w startingIndex numAddresses =
     getAddresses e w startingIndex numAddresses False"

definition getAddressList :: "env \<Rightarrow> wallet \<Rightarrow> nat \<Rightarrow> Address list" where
  "getAddressList e w numAddressPerCall =
     ([] @ getChangeAddresses e w 0 numAddressPerCall) @ getNonChangeAddresses e w 0 numAddressPerCall"

text \<open>
  The loop of \<open>getWalletAddress\<close>. It need not end (a batch size of \<open>0\<close> never advances),
  so the result is an option and \<open>None\<close> is the loop that runs for ever.
\<close>

partial_function (option) getWalletAddress_loop ::
  "env \<Rightarrow> wallet \<Rightarrow> string \<Rightarrow> nat \<Rightarrow> nat \<Rightarrow> nat \<Rightarrow> bool \<Rightarrow> (error + Address) option" where
  "getWalletAddress_loop e w address maxAddresses addressesPerCall index change =
     (if index < maxAddresses then
        (case find (\<lambda>addr. equals addr address) (getAddresses e w index addressesPerCall change) of
           Some addr \<Rightarrow> Some (Inr addr)
         | None \<Rightarrow>
             (if index + addressesPerCall = maxAddresses \<and> \<not> change
              then getWalletAddress_loop e w address maxAddresses addressesPerCall 0 True
              else getWalletAddress_loop e w address maxAddresses addressesPerCall
                     (index + addressesPerCall) change))
      else Some (Inl ADDRESS_MISSING_IN_LEDGER))"

declare getWalletAddress_loop.simps [code]

definition getWalletAddress ::
  "env \<Rightarrow> wallet \<Rightarrow> string \<Rightarrow> nat \<Rightarrow> nat \<Rightarrow> (error + Address) option" where
  "getWalletAddress e w address maxAddresses addressesPerCall =
     getWalletAddress_loop e w address maxAddresses addressesPerCall 0 False"

subsection \<open>Used and unused addresses\<close>

record unused_pair =
  unused_change :: "Address option"
  unused_nonChange :: "Address option"

record used_unused =
  uu_usedAddresses :: "Address list"
  uu_unusedAddress :: unused_pair

text \<open>\<open>unusedAddress[key]\<close>, read and written; the key is \<open>'change'\<close> when the flag is set.\<close>

definition get_key :: "bool \<Rightarrow> unused_pair \<Rightarrow> Address option" where
  "get_key change p = (if change then unused_change p else unused_nonChange p)"

definition set_key :: "bool \<Rightarrow> Address option \<Rightarrow> unused_pair \<Rightarrow> unused_pair" where
  "set_key change v p = (if change then p\<lparr>unused_change := v\<rparr> else p\<lparr>unused_nonChange := v\<rparr>)"

definition isUsed :: "provider_utxo list \<Rightarrow> Address \<Rightarrow> bool" where
  "isUsed utxos address = (find (\<lambda>utxo. equals address (p_address utxo)) utxos \<noteq> None)"

text \<open>The body of the loop over the address list.\<close>

definition classify :: "provider_utxo list \<Rightarrow> used_unused \<Rightarrow> Address \<Rightarrow> used_unused" where
  "classify utxos st address =
     (let key = a_change address in
      if isUsed utxos address then
        st\<lparr> uu_usedAddresses := uu_usedAddresses st @ [address],
            uu_unusedAddress := set_key key None (uu_unusedAddress st) \<rparr>
      else if get_key key (uu_unusedAddress st) = None then
        st\<lparr> uu_unusedAddress := set_key key (Some address) (uu_unusedAddress st) \<rparr>
      else st)"

fun classify_all :: "provider_utxo list \<Rightarrow> used_unused \<Rightarrow> Address list \<Rightarrow> used_unused" where
  "classify_all utxos st [] = st"
| "classify_all utxos st (address # rest) = classify_all utxos (classify utxos st address) rest"

text \<open>\<open>addressList[0]\<close>, which is \<open>undefined\<close> on the empty list.\<close>

fun first_of :: "'a list \<Rightarrow> 'a option" where
  "first_of [] = None"
| "first_of (x # _) = Some x"

definition fallback :: "Address list \<Rightarrow> unused_pair \<Rightarrow> unused_pair" where
  "fallback addressList p =
     (let p = (if unused_change p = None then p\<lparr>unused_change := first_of addressList\<rparr> else p);
          p = (if unused_nonChange p = None then p\<lparr>unused_nonChange := first_of addressList\<rparr> else p)
      in p)"

text \<open>The two variables before the loop: no used address, both slots \<open>null\<close>.\<close>

definition nothing_seen :: used_unused where
  "nothing_seen =
     \<lparr> uu_usedAddresses = [],
       uu_unusedAddress = \<lparr> unused_change = None, unused_nonChange = None \<rparr> \<rparr>"

definition getUsedUnusedAddresses :: "env \<Rightarrow> wallet \<Rightarrow> nat \<Rightarrow> used_unused" where
  "getUsedUnusedAddresses e w numAddressPerCall =
     (let addressList = getAddressList e w numAddressPerCall;
          utxos = getUnspentTransactions e addressList;
          st = classify_all utxos nothing_seen addressList
      in st\<lparr> uu_unusedAddress := fallback addressList (uu_unusedAddress st) \<rparr>)"

definition getUsedAddresses :: "env \<Rightarrow> wallet \<Rightarrow> nat \<Rightarrow> Address list" where
  "getUsedAddresses e w numAddressPerCall = uu_usedAddresses (getUsedUnusedAddresses e w numAddressPerCall)"

definition getUnusedAddress :: "env \<Rightarrow> wallet \<Rightarrow> bool \<Rightarrow> nat \<Rightarrow> Address option" where
  "getUnusedAddress e w change numAddressPerCall =
     get_key change (uu_unusedAddress (getUsedUnusedAddresses e w numAddressPerCall))"

subsection \<open>Coin selection\<close>

text \<open>
  The calls a run makes to the coin selection library, to the fee estimate of the provider,
  to the signer and to the broadcast of the provider, in the order it makes them. Every
  operation below returns its trace with its result.
\<close>

datatype event =
    Coinselect "utxo list" "cs_output list" number
  | GetFeePerByte
  | SerializeTransactionOutputs "payment list"
  | CreatePaymentTransactionNew signer_call
  | SendRawTransaction string "metadata option"

text \<open>The object \<open>getInputs\<close> returns; a field the source leaves out is \<open>None\<close>.\<close>

record selection =
  s_inputs :: "utxo list option"
  s_change :: "cs_output option"
  s_fee :: "number option"
  s_amount :: number

text \<open>
  \<open>getInputs\<close>. An array is truthy even when empty, so \<open>inputs && outputs\<close> asks for both
  to be present. The outputs are plain objects, which have no \<open>length\<close>: the branch
  \<open>change = change[0].value\<close> is not taken and \<open>change\<close> stays the output found.
\<close>

definition request :: "number \<Rightarrow> cs_output list" where
  "request amount = [\<lparr> o_id = Some ''main'', o_value = amount \<rparr>]"

definition getInputs :: "env \<Rightarrow> utxo list \<Rightarrow> number \<Rightarrow> number \<Rightarrow> event list \<times> selection" where
  "getInputs e utxos amount feePerByte =
     (let r = coinselect e utxos (request amount) feePerByte;
          result =
            (case cs_inputs r of
               None \<Rightarrow> \<lparr> s_inputs = None, s_change = None, s_fee = cs_fee r, s_amount = amount \<rparr>
             | Some inputs \<Rightarrow>
                 (case cs_outputs r of
                    None \<Rightarrow> \<lparr> s_inputs = None, s_change = None, s_fee = cs_fee r, s_amount = amount \<rparr>
                  | Some outputs \<Rightarrow>
                      \<lparr> s_inputs = Some inputs,
                        s_change = find (\<lambda>output. o_id output \<noteq> Some ''main'') outputs,
                        s_fee = cs_fee r, s_amount = amount \<rparr>))
      in ([Coinselect utxos (request amount) feePerByte], result))"

text \<open>
  The first argument of \<open>getInputsForAmount\<close> is declared a number; \<open>_buildTransaction\<close>
  hands it the array of payment outputs. Both are values of the argument.
\<close>

datatype amount_arg = Amount number | Outputs "payment list"

fun join_with :: "string \<Rightarrow> string list \<Rightarrow> string" where
  "join_with sep [] = []"
| "join_with sep [x] = x"
| "join_with sep (x # y # rest) = x @ sep @ join_with sep (y # rest)"

text \<open>The text of an array of plain objects: each element reads \<open>[object Object]\<close>.\<close>

definition Array_toString :: "payment list \<Rightarrow> string" where
  "Array_toString xs = join_with '','' (map (\<lambda>_. ''[object Object]'') xs)"

text \<open>
  \<open>Number(x)\<close>. An array is read through its text: the empty text is \<open>0\<close>, and a text that
  begins with \<open>[object Object]\<close> is no numeric literal.
\<close>

fun Number_of :: "amount_arg \<Rightarrow> number" where
  "Number_of (Amount n) = n"
| "Number_of (Outputs xs) = (if Array_toString xs = [] then Num 0 else NaN)"

text \<open>\<open>new BigNumber(x)\<close>, for which neither text of an array is a number.\<close>

fun BigNumber_of :: "amount_arg \<Rightarrow> number" where
  "BigNumber_of (Amount n) = n"
| "BigNumber_of (Outputs xs) = NaN"

text \<open>The operand of \<open>minus\<close>; \<open>undefined\<close> makes the difference \<open>NaN\<close>.\<close>

fun operand :: "number option \<Rightarrow> number" where
  "operand None = NaN"
| "operand (Some n) = n"

text \<open>
  The callback of \<open>utxos.map\<close>: reading \<open>addr.derivationPath\<close> throws when no address
  of the list owns the output. \<open>times(1e8)\<close> turns the amount into its count of units.
\<close>

definition update_utxo :: "Address list \<Rightarrow> provider_utxo \<Rightarrow> error + utxo" where
  "update_utxo addrList utxo =
     (case find (\<lambda>a. equals a (p_address utxo)) addrList of
        None \<Rightarrow> Inl TypeError
      | Some addr \<Rightarrow>
          Inr \<lparr> u_txid = p_txid utxo, u_vout = p_vout utxo, u_address = p_address utxo,
                u_amount = p_amount utxo, u_value = Num (p_amount utxo),
                u_derivationPath = a_derivationPath addr \<rparr>)"

fun map_result :: "('a \<Rightarrow> error + 'b) \<Rightarrow> 'a list \<Rightarrow> error + 'b list" where
  "map_result f [] = Inr []"
| "map_result f (x # xs) =
     (case f x of
        Inl err \<Rightarrow> Inl err
      | Inr y \<Rightarrow> (case map_result f xs of Inl err \<Rightarrow> Inl err | Inr ys \<Rightarrow> Inr (y # ys)))"

text \<open>\<open>if (!feePerByte) feePerByte = await this.provider.getFeePerByte()\<close>.\<close>

definition fee_rate :: "env \<Rightarrow> number option \<Rightarrow> event list \<times> number" where
  "fee_rate e feePerByte =
     (case feePerByte of
        None \<Rightarrow> ([GetFeePerByte], getFeePerByte e)
      | Some f \<Rightarrow> if truthy f then ([], f) else ([GetFeePerByte], getFeePerByte e))"

text \<open>The list \<open>updatedUtxos\<close>, or the error of the callback that throws first.\<close>

definition updated_utxos :: "env \<Rightarrow> wallet \<Rightarrow> nat \<Rightarrow> error + utxo list" where
  "updated_utxos e w numAddressPerCall =
     (let addrList = getAddressList e w numAddressPerCall;
          utxos = getUnspentTransactions e addrList
      in map_result (update_utxo addrList) utxos)"

definition getInputsForAmount ::
  "env \<Rightarrow> wallet \<Rightarrow> amount_arg \<Rightarrow> number option \<Rightarrow> nat \<Rightarrow> event list \<times> (error + selection)" where
  "getInputsForAmount e w amount feePerByte numAddressPerCall =
     (case updated_utxos e w numAddressPerCall of
        Inl err \<Rightarrow> ([], Inl err)
      | Inr updatedUtxos \<Rightarrow>
          (let (t0, feePerByte) = fee_rate e feePerByte;
               (t1, result) = getInputs e updatedUtxos (Number_of amount) feePerByte
           in if s_inputs result \<noteq> None then (t0 @ t1, Inr result)
              else
                (let fixedAmount = minus_number (BigNumber_of amount) (operand (s_fee result));
                     (t2, fixedResult) = getInputs e updatedUtxos fixedAmount feePerByte
                 in if s_inputs fixedResult \<noteq> None then (t0 @ t1 @ t2, Inr fixedResult)
                    else (t0 @ t1 @ t2, Inl NOT_ENOUGHT_BALANCE))))"

subsection \<open>Building the transaction\<close>

text \<open>
  The callback of \<open>outputs.map\<close>, with the variable \<open>amountWithoutFee\<close> it reads and
  clears (\<open>None\<close> is \<open>null\<close>).
\<close>

fun payment_outputs ::
  "env \<Rightarrow> wallet \<Rightarrow> number option \<Rightarrow> payment list \<Rightarrow> error + ledger_output list" where
  "payment_outputs e w amountWithoutFee [] = Inr []"
| "payment_outputs e w amountWithoutFee (output # rest) =
     (let adjusted = (case amountWithoutFee of None \<Rightarrow> False | Some a \<Rightarrow> truthy a);
          amount = (if adjusted then operand amountWithoutFee else value output);
          amountWithoutFee = (if adjusted then None else amountWithoutFee)
      in case toOutputScript e (Text (to output)) (w_network w) of
           None \<Rightarrow> Inl NoMatchingScript
         | Some script \<Rightarrow>
             (case payment_outputs e w amountWithoutFee rest of
                Inl err \<Rightarrow> Inl err
              | Inr others \<Rightarrow> Inr (\<lparr> lo_amount = getAmountBuffer amount, lo_script = script \<rparr> # others)))"

text \<open>The local variables of \<open>_buildTransaction\<close> when it reaches the signer.\<close>

record assembled =
  as_unusedAddress :: "Address option"
  as_ledgerInputs :: "(string \<times> nat) list"
  as_paths :: "string list"
  as_ledgerOutputs :: "ledger_output list"
  as_data :: "metadata option"

definition script_target_of :: "Address option \<Rightarrow> script_target" where
  "script_target_of a = (case a of None \<Rightarrow> Undefined | Some addr \<Rightarrow> Object addr)"

text \<open>
  Lines 343 to 383: the list \<open>ledgerOutputs\<close>. \<open>Array.prototype.concat\<close> returns a new
  array and leaves \<open>ledgerOutputs\<close> as it was; the source drops what it returns.
\<close>

definition ledgerOutputs_of ::
  "env \<Rightarrow> wallet \<Rightarrow> Address option \<Rightarrow> selection \<Rightarrow> payment list \<Rightarrow> metadata option \<Rightarrow>
   error + ledger_output list \<times> metadata option" where
  "ledgerOutputs_of e w unusedAddress sel outputs data =
     (let amountWithoutFee = s_amount sel;
          ledgerOutputs =
            (case data of
               None \<Rightarrow> []
             | Some d \<Rightarrow> [\<lparr> lo_amount = getAmountBuffer (Num 0), lo_script = embed e (''J_'' @ eventName d) \<rparr>]);
          data =
            (case data of
               None \<Rightarrow> None
             | Some d \<Rightarrow> Some (if truthy amountWithoutFee then d\<lparr>inputAmount := Some amountWithoutFee\<rparr> else d))
      in case payment_outputs e w (Some amountWithoutFee) outputs of
           Inl err \<Rightarrow> Inl err
         | Inr mapped \<Rightarrow>
             (let dropped = ledgerOutputs @ mapped
              in case s_change sel of
                   None \<Rightarrow> Inr (ledgerOutputs, data)
                 | Some change \<Rightarrow>
                     (case toOutputScript e (script_target_of unusedAddress) (w_network w) of
                        None \<Rightarrow> Inl NoMatchingScript
                      | Some script \<Rightarrow>
                          Inr (ledgerOutputs @
                                 [\<lparr> lo_amount = getAmountBuffer (o_value change), lo_script = script \<rparr>],
                               data))))"

definition getLedgerInputs :: "env \<Rightarrow> utxo list \<Rightarrow> (string \<times> nat) list" where
  "getLedgerInputs e utxos =
     map (\<lambda>u. (splitTransaction e (getRawTransaction e (u_txid u)), u_vout u)) utxos"

text \<open>
  \<open>_buildTransaction\<close> up to line 383. It calls \<open>getUnusedAddress(true)\<close> and
  \<open>getInputsForAmount(outputs)\<close>: the batch size is the default of 25 and no fee rate is
  passed on.
\<close>

definition assemble ::
  "env \<Rightarrow> wallet \<Rightarrow> payment list \<Rightarrow> metadata option \<Rightarrow> number option \<Rightarrow>
   event list \<times> (error + assembled)" where
  "assemble e w outputs data feePerByte =
     (let unusedAddress = getUnusedAddress e w True 25
      in case getInputsForAmount e w (Outputs outputs) None 25 of
           (t, Inl err) \<Rightarrow> (t, Inl err)
         | (t, Inr sel) \<Rightarrow>
             (case s_inputs sel of
                None \<Rightarrow> (t, Inl TypeError)
              | Some inputs \<Rightarrow>
                  (case ledgerOutputs_of e w unusedAddress sel outputs data of
                     Inl err \<Rightarrow> (t, Inl err)
                   | Inr (ledgerOutputs, data) \<Rightarrow>
                       (t, Inr \<lparr> as_unusedAddress = unusedAddress,
                                as_ledgerInputs = getLedgerInputs e inputs,
                                as_paths = map u_derivationPath inputs,
                                as_ledgerOutputs = ledgerOutputs,
                                as_data = data \<rparr>))))"

text \<open>
  The method \<open>_buildTransaction\<close>, and before it the arguments of its call to the signer:
  the serialized outputs are those of \<open>{ outputs }\<close>, the list of payments the method was
  called with. The result is what the signer returns, with the metadata object as the run
  leaves it.
\<close>

definition signer_call_of :: "env \<Rightarrow> wallet \<Rightarrow> payment list \<Rightarrow> assembled \<Rightarrow> Address \<Rightarrow> signer_call" where
  "signer_call_of e w outputs a unusedAddress =
     \<lparr> sc_inputs = as_ledgerInputs a,
       sc_paths = as_paths a,
       sc_changePath = a_derivationPath unusedAddress,
       sc_outputScriptHex = serializeTransactionOutputs e outputs,
       sc_segwit = (w_addressType w \<in> set [''bech32'', ''p2sh-segwit'']),
       sc_additionals = (if w_addressType w = ''bech32'' then Some [''bech32''] else None) \<rparr>"

definition internal_buildTransaction ::
  "env \<Rightarrow> wallet \<Rightarrow> payment list \<Rightarrow> metadata option \<Rightarrow> number option \<Rightarrow>
   event list \<times> (error + string \<times> metadata option)" where
  "internal_buildTransaction e w outputs data feePerByte =
     (case assemble e w outputs data feePerByte of
        (t, Inl err) \<Rightarrow> (t, Inl err)
      | (t, Inr a) \<Rightarrow>
          (let t = t @ [SerializeTransactionOutputs outputs]
           in case as_unusedAddress a of
                None \<Rightarrow> (t, Inl TypeError)
              | Some unusedAddress \<Rightarrow>
                  (let call = signer_call_of e w outputs a unusedAddress
                   in (t @ [CreatePaymentTransactionNew call],
                       Inr (createPaymentTransactionNew e call, as_data a)))))"

definition buildTransaction ::
  "env \<Rightarrow> wallet \<Rightarrow> string \<Rightarrow> number \<Rightarrow> metadata option \<Rightarrow> number option \<Rightarrow>
   event list \<times> (error + string \<times> metadata option)" where
  "buildTransaction e w dest amount data feePerByte =
     internal_buildTransaction e w [\<lparr> to = dest, value = amount \<rparr>] data feePerByte"

text \<open>The method \<open>_sendTransaction\<close>: build, then broadcast with the metadata object.\<close>

definition internal_sendTransaction ::
  "env \<Rightarrow> wallet \<Rightarrow> payment list \<Rightarrow> metadata option \<Rightarrow> number option \<Rightarrow>
   event list \<times> (error + string)" where
  "internal_sendTransaction e w outputs data feePerByte =
     (case internal_buildTransaction e w outputs data feePerByte of
        (t, Inl err) \<Rightarrow> (t, Inl err)
      | (t, Inr (signedTransaction, data)) \<Rightarrow>
          (t @ [SendRawTransaction signedTransaction data],
           Inr (sendRawTransaction e signedTransaction data)))"

definition sendTransaction ::
  "env \<Rightarrow> wallet \<Rightarrow> string \<Rightarrow> number \<Rightarrow> metadata option \<Rightarrow> number option \<Rightarrow>
   event list \<times> (error + string)" where
  "sendTransaction e w dest amount data feePerByte =
     internal_sendTransaction e w [\<lparr> to = dest, value = amount \<rparr>] data feePerByte"

subsection \<open>Reading a trace\<close>

fun coinselect_calls :: "event list \<Rightarrow> (utxo list \<times> cs_output list \<times> number) list" where
  "coinselect_calls [] = []"
| "coinselect_calls (Coinselect utxos outputs feeRate # t) = (utxos, outputs, feeRate) # coinselect_calls t"
| "coinselect_calls (_ # t) = coinselect_calls t"

text \<open>The target amounts and the fee rates the coin selection library was handed.\<close>

definition targets :: "event list \<Rightarrow> number list list" where
  "targets t = map (\<lambda>(utxos, outputs, feeRate). map o_value outputs) (coinselect_calls t)"

definition rates :: "event list \<Rightarrow> number list" where
  "rates t = map (\<lambda>(utxos, outputs, feeRate). feeRate) (coinselect_calls t)"

fun serialized :: "event list \<Rightarrow> payment list list" where
  "serialized [] = []"
| "serialized (SerializeTransactionOutputs outputs # t) = outputs # serialized t"
| "serialized (_ # t) = serialized t"

subsection \<open>Notions the properties are stated with\<close>

fun sum_values :: "number list \<Rightarrow> number" where
  "sum_values [] = Num 0"
| "sum_values (v # vs) = plus_number v (sum_values vs)"

text \<open>The change of a selection as an amount: \<open>0\<close> when there is no change output.\<close>

fun change_value :: "cs_output option \<Rightarrow> number" where
  "change_value None = Num 0"
| "change_value (Some c) = o_value c"

text \<open>The addresses of a list that come after its last used address.\<close>

definition after_last_used :: "provider_utxo list \<Rightarrow> Address list \<Rightarrow> Address list" where
  "after_last_used utxos xs = rev (takeWhile (\<lambda>a. \<not> isUsed utxos a) (rev xs))"

definition branch :: "bool \<Rightarrow> Address list \<Rightarrow> Address list" where
  "branch change xs = filter (\<lambda>a. a_change a = change) xs"

text \<open>What a lookup over a list of addresses comes to: the first one equal to the target.\<close>

definition lookup_result :: "string \<Rightarrow> Address list \<Rightarrow> error + Address" where
  "lookup_result address xs =
     (case find (\<lambda>addr. equals addr address) xs of
        None \<Rightarrow> Inl ADDRESS_MISSING_IN_LEDGER
      | Some addr \<Rightarrow> Inr addr)"

text \<open>The \<open>k\<close> digit hexadecimal text of a number and its \<open>k\<close> bytes, most significant first.\<close>

fun hex_fixed :: "nat \<Rightarrow> nat \<Rightarrow> string" where
  "hex_fixed 0 n = []"
| "hex_fixed (Suc k) n = hex_fixed k (n div 16) @ [hex_char (n mod 16)]"

fun be_bytes :: "nat \<Rightarrow> nat \<Rightarrow> byte list" where
  "be_bytes 0 n = []"
| "be_bytes (Suc k) n = be_bytes k (n div 256) @ [of_nat (n mod 256)]"

subsection \<open>A concrete wallet\<close>

text \<open>
  Collaborators to run the model on: a key derivation that names a key by its sub-path,
  encoders that take the key for the address, a provider that knows a given list of unspent
  outputs and estimates 10 per byte, and a coin selection that is handed in.
\<close>

definition example_network :: network where
  "example_network = \<lparr> coinType = ''0'' \<rparr>"

text \<open>An engine's text for three of the names every object inherits.\<close>

definition example_inherited :: "string \<Rightarrow> string option" where
  "example_inherited =
     map_of [(''__proto__'', ''[object Object]''),
             (''toString'', ''function toString() { [native code] }''),
             (''constructor'', ''function Object() { [native code] }'')]"

definition example_wallet :: "string \<Rightarrow> wallet" where
  "example_wallet addressType =
     (case constructor example_inherited example_network addressType of
        Inr w \<Rightarrow> w
      | Inl _ \<Rightarrow> \<lparr> w_network = example_network, w_derivationPath = [], w_addressType = [] \<rparr>)"

definition example_env ::
  "provider_utxo list \<Rightarrow> (utxo list \<Rightarrow> cs_output list \<Rightarrow> number \<Rightarrow> cs_result) \<Rightarrow> env" where
  "example_env utxos select =
     \<lparr> derivePublicKey = (\<lambda>format path subPath. subPath),
       p2pkh = (\<lambda>publicKey net. Some publicKey),
       p2sh_p2wpkh = (\<lambda>publicKey net. Some publicKey),
       p2wpkh = (\<lambda>publicKey net. Some publicKey),
       getUnspentTransactions =
         (\<lambda>addressList. filter (\<lambda>u. list_ex (\<lambda>a. equals a (p_address u)) addressList) utxos),
       getFeePerByte = Num 10,
       getRawTransaction = (\<lambda>txid. ''raw:'' @ txid),
       splitTransaction = (\<lambda>hex. hex),
       coinselect = select,
       embed = (\<lambda>d. ''embed:'' @ d),
       toOutputScript =
         (\<lambda>t net. case t of
                     Text s \<Rightarrow> Some (''script:'' @ s)
                   | Object a \<Rightarrow> map_option (\<lambda>s. ''script:'' @ s) (a_address a)
                   | Undefined \<Rightarrow> None),
       serializeTransactionOutputs = (\<lambda>outs. ''serialized''),
       createPaymentTransactionNew = (\<lambda>c. ''signed''),
       sendRawTransaction = (\<lambda>tx d. ''txid'') \<rparr>"

fun covers :: "number \<Rightarrow> number \<Rightarrow> bool" where
  "covers (Num a) (Num b) = (b \<le> a)"
| "covers _ _ = False"

text \<open>
  A coin selection that spends every unspent output at a flat size of 200 bytes, returns
  what is left as change, and reports only the fee when the funds do not cover the target
  and the fee (a comparison with \<open>NaN\<close> is false).
\<close>

definition spend_all :: "utxo list \<Rightarrow> cs_output list \<Rightarrow> number \<Rightarrow> cs_result" where
  "spend_all utxos outputs feeRate =
     (let fee = (case feeRate of Num r \<Rightarrow> Num (r * 200) | NaN \<Rightarrow> NaN);
          total = sum_values (map u_value utxos);
          needed = plus_number (sum_values (map o_value outputs)) fee;
          rest = minus_number total needed
      in if covers total needed
         then \<lparr> cs_inputs = Some utxos,
                cs_outputs = Some (if truthy rest then outputs @ [\<lparr> o_id = None, o_value = rest \<rparr>] else outputs),
                cs_fee = Some fee \<rparr>
         else \<lparr> cs_inputs = None, cs_outputs = None, cs_fee = Some fee \<rparr>)"

text \<open>A coin selection that answers every request with all the funds and a change of 500.\<close>

definition generous :: "utxo list \<Rightarrow> cs_output list \<Rightarrow> number \<Rightarrow> cs_result" where
  "generous utxos outputs feeRate =
     \<lparr> cs_inputs = Some utxos,
       cs_outputs = Some (outputs @ [\<lparr> o_id = None, o_value = Num 500 \<rparr>]),
       cs_fee = Some (Num 100) \<rparr>"

text \<open>A coin selection that splits what is left into two change outputs.\<close>

definition two_changes :: "utxo list \<Rightarrow> cs_output list \<Rightarrow> number \<Rightarrow> cs_result" where
  "two_changes utxos outputs feeRate =
     \<lparr> cs_inputs = Some utxos,
       cs_outputs = Some (outputs @ [\<lparr> o_id = None, o_value = Num 2 \<rparr>, \<lparr> o_id = None, o_value = Num 2 \<rparr>]),
       cs_fee = Some (Num 1) \<rparr>"

definition funds :: "provider_utxo list" where
  "funds = [\<lparr> p_txid = ''aa'', p_vout = 0, p_address = ''0/0'', p_amount = 100000 \<rparr>]"

text \<open>Funds on the change branch: its addresses 0 and 2 hold an unspent output each.\<close>

definition change_funds :: "provider_utxo list" where
  "change_funds =
     [\<lparr> p_txid = ''bb'', p_vout = 0, p_address = ''1/0'', p_amount = 7000 \<rparr>,
      \<lparr> p_txid = ''cc'', p_vout = 1, p_address = ''1/2'', p_amount = 9000 \<rparr>]"

definition change_address :: "nat \<Rightarrow> Address" where
  "change_address i = derive_at (example_env change_funds spend_all) (example_wallet ''bech32'') True i"

definition first_change_address :: Address where
  "first_change_address =
     \<lparr> a_address = Some ''1/0'',
       a_derivationPath = w_derivationPath (example_wallet ''bech32'') @ ''1/0'',
       a_publicKey = ''1/0'', a_index = 0, a_change = True \<rparr>"

definition funded_utxo :: utxo where
  "funded_utxo =
     \<lparr> u_txid = ''aa'', u_vout = 0, u_address = ''0/0'', u_amount = 100000, u_value = Num 100000,
       u_derivationPath = w_derivationPath (example_wallet ''bech32'') @ ''0/0'' \<rparr>"

definition small_utxo :: utxo where
  "small_utxo =
     \<lparr> u_txid = ''dd'', u_vout = 0, u_address = ''0/1'', u_amount = 10, u_value = Num 10,
       u_derivationPath = w_derivationPath (example_wallet ''bech32'') @ ''0/1'' \<rparr>"

definition payment_1000 :: payment where
  "payment_1000 = \<lparr> to = ''dest'', value = Num 1000 \<rparr>"

definition new_contract :: metadata where
  "new_contract = \<lparr> eventName = ''NEW'', inputAmount = None \<rparr>"

definition selection_500 :: selection where
  "selection_500 =
     \<lparr> s_inputs = Some [funded_utxo], s_change = Some \<lparr> o_id = None, o_value = Num 500 \<rparr>,
       s_fee = Some (Num 100), s_amount = NaN \<rparr>"

section \<open>Properties\<close>

subsection \<open>The amount buffer\<close>

lemma hex_val_hex_char_all: "list_all (\<lambda>d. hex_val (hex_char d) = Some d) [0 ..< 16]"
  by code_simp

lemma hex_val_hex_char: "d < 16 \<Longrightarrow> hex_val (hex_char d) = Some d"
  using hex_val_hex_char_all by (simp add: list_all_iff)

lemma hex_fixed_zero: "hex_fixed k 0 = replicate k (CHR ''0'')"
  by (induction k) (simp_all add: hex_char_def replicate_append_same)

lemma length_hex_fixed: "length (hex_fixed k n) = k"
  by (induction k arbitrary: n) simp_all

lemma padStart_snoc: "padStart (xs @ [c]) (Suc k) z = padStart xs k z @ [c]"
  by (simp add: padStart_def)

lemma padStart_hex_digits:
  "n < 16 ^ k \<Longrightarrow> 0 < k \<Longrightarrow> padStart (hex_digits n) k (CHR ''0'') = hex_fixed k n"
proof (induction k arbitrary: n)
  case 0
  then show ?case by simp
next
  case (Suc k)
  show ?case
  proof (cases "n < 16")
    case True
    then show ?thesis
      by (simp add: hex_digits.simps [of n] padStart_def hex_fixed_zero)
  next
    case False
    from Suc.prems have d: "n div 16 < 16 ^ k"
      by (simp add: less_mult_imp_div_less mult.commute)
    from False have "0 < n div 16" by (simp add: div_greater_zero_iff)
    with d have "0 < k" by (cases k) auto
    with Suc.IH [OF d] have "padStart (hex_digits (n div 16)) k (CHR ''0'') = hex_fixed k (n div 16)"
      by simp
    with False show ?thesis
      by (simp add: hex_digits.simps [of n] padStart_snoc)
  qed
qed

lemma Buffer_from_hex_append:
  "even (length xs) \<Longrightarrow> list_all (\<lambda>c. hex_val c \<noteq> None) xs \<Longrightarrow>
   Buffer_from_hex (xs @ ys) = Buffer_from_hex xs @ Buffer_from_hex ys"
  by (induction xs rule: Buffer_from_hex.induct) auto

lemma hex_fixed_valid: "list_all (\<lambda>c. hex_val c \<noteq> None) (hex_fixed k n)"
  by (induction k arbitrary: n) (simp_all add: hex_val_hex_char)

lemma hex_fixed_Suc_Suc:
  "hex_fixed (Suc (Suc k)) n = hex_fixed k (n div 256) @ [hex_char (n div 16 mod 16), hex_char (n mod 16)]"
proof -
  have "n div 16 div 16 = n div 256" by (simp add: div_mult2_eq [symmetric])
  then show ?thesis by simp
qed

lemma Buffer_from_hex_pair:
  "Buffer_from_hex [hex_char (n div 16 mod 16), hex_char (n mod 16)] = [of_nat (n mod 256)]"
proof -
  have "16 * (n div 16 mod 16) + n mod 16 = n mod 256"
    using mod_mult2_eq [of n 16 16] by simp
  then show ?thesis
    by (simp add: hex_val_hex_char)
qed

lemma Buffer_from_hex_fixed: "Buffer_from_hex (hex_fixed (2 * k) n) = be_bytes k n"
proof (induction k arbitrary: n)
  case 0
  then show ?case by simp
next
  case (Suc k)
  let ?upper = "hex_fixed (2 * k) (n div 256)"
  let ?pair = "[hex_char (n div 16 mod 16), hex_char (n mod 16)]"
  have "hex_fixed (2 * Suc k) n = ?upper @ ?pair"
    using hex_fixed_Suc_Suc [of "2 * k" n] by simp
  moreover have "Buffer_from_hex (?upper @ ?pair) = Buffer_from_hex ?upper @ Buffer_from_hex ?pair"
  proof (rule Buffer_from_hex_append)
    show "even (length ?upper)" by (simp add: length_hex_fixed)
    show "list_all (\<lambda>c. hex_val c \<noteq> None) ?upper" by (rule hex_fixed_valid)
  qed
  ultimately have "Buffer_from_hex (hex_fixed (2 * Suc k) n) = be_bytes k (n div 256) @ [of_nat (n mod 256)]"
    using Suc.IH [of "n div 256"] Buffer_from_hex_pair [of n] by simp
  then show ?case by simp
qed

lemma rev_be_bytes: "rev (be_bytes k n) = map (\<lambda>j. of_nat (n div 256 ^ j)) [0 ..< k]"
proof (induction k arbitrary: n)
  case 0
  then show ?case by simp
next
  case (Suc k)
  have "map (\<lambda>j. (of_nat (n div 256 ^ j) :: byte)) [0 ..< Suc k]
      = of_nat n # map (\<lambda>j. of_nat (n div 256 ^ Suc j)) [0 ..< k]"
    by (simp add: upt_conv_Cons map_Suc_upt [symmetric] del: upt_Suc)
  moreover have "(of_nat (n mod 256) :: byte) = of_nat n"
    by (simp add: word_eq_iff_unsigned [where ?'a = nat] unsigned_of_nat take_bit_eq_mod)
  ultimately show ?case
    using Suc.IH [of "n div 256"] by (simp add: div_mult2_eq)
qed

lemma padHexStart_nat:
  "n < 2 ^ 64 \<Longrightarrow> padHexStart (hex_digits n) 16 = hex_fixed 16 n"
proof -
  assume "n < 2 ^ 64"
  then have "n < 16 ^ 16" by simp
  then show ?thesis
    using padStart_hex_digits [of n 16] by (simp add: padHexStart_def)
qed

text \<open>Below \<open>2^53\<close> every whole number is a double and its text spells it.\<close>

lemma to_double_small: "v < 2 ^ 53 \<Longrightarrow> to_double v = v"
  by (simp add: to_double_def exponent.simps)

lemma exponent_quotient: "2 ^ 53 \<le> v \<Longrightarrow> 2 ^ 52 \<le> v div 2 ^ exponent v"
proof (induction v rule: exponent.induct)
  case (1 v)
  from "1.prems" have e: "exponent v = Suc (exponent (v div 2))"
    by (simp add: exponent.simps [of v])
  have q: "v div 2 ^ exponent v = v div 2 div 2 ^ exponent (v div 2)"
    by (simp add: e zdiv_zmult2_eq)
  show ?case
  proof (cases "v div 2 < 2 ^ 53")
    case True
    then have "exponent (v div 2) = 0" by (simp add: exponent.simps)
    with "1.prems" q show ?thesis by simp
  next
    case False
    with "1.prems" "1.IH" q show ?thesis by simp
  qed
qed

lemma to_double_large:
  assumes "2 ^ 53 \<le> v"
  shows "2 ^ 53 \<le> to_double v"
proof -
  let ?e = "exponent v" and ?q = "v div 2 ^ exponent v"
  from assms have q: "2 ^ 52 \<le> ?q" by (rule exponent_quotient)
  from assms have "0 < ?e" by (simp add: exponent.simps [of v])
  then have two: "(2::int) \<le> 2 ^ ?e"
    by (cases ?e) simp_all
  from q two have "(2::int) ^ 52 * 2 \<le> ?q * 2 ^ ?e"
    by (intro mult_mono) simp_all
  moreover have "?q * 2 ^ ?e \<le> to_double v"
    by (simp add: to_double_def Let_def)
  ultimately show ?thesis by simp
qed

lemma to_double_above: "x < 2 ^ 53 \<Longrightarrow> x < v \<Longrightarrow> to_double v \<noteq> x"
proof (cases "v < 2 ^ 53")
  case True
  assume "x < v"
  with True show ?thesis by (simp add: to_double_small)
next
  case False
  assume "x < 2 ^ 53"
  moreover from False have "2 ^ 53 \<le> v" by simp
  then have "2 ^ 53 \<le> to_double v" by (rule to_double_large)
  ultimately show ?thesis by simp
qed

lemma candidate_small:
  assumes "x < 2 ^ 53" and "0 < p"
  shows "candidate x p = (if x div p * p = x then Some x else None)"
proof -
  let ?lo = "x div p * p"
  from assms(2) have below: "?lo \<le> x"
    using div_mult_mod_eq [of x p] pos_mod_sign [of p x] by linarith
  with assms(1) have lo: "to_double ?lo = ?lo" by (simp add: to_double_small)
  from assms(2) have "x < ?lo + p"
    using div_mult_mod_eq [of x p] pos_mod_bound [of p x] by linarith
  with assms(1) have hi: "to_double (?lo + p) \<noteq> x" by (rule to_double_above)
  from lo hi show ?thesis
    by (simp add: candidate_def Let_def)
qed

lemma shortest_decimal_small: "x < 2 ^ 53 \<Longrightarrow> shortest_decimal x n k = x"
proof (induction x n k rule: shortest_decimal.induct)
  case (1 x n k)
  show ?case
  proof (cases "n \<le> k")
    case True
    then show ?thesis by (simp add: shortest_decimal.simps [of x n k])
  next
    case False
    have c: "candidate x (10 ^ (n - k)) = (if x div 10 ^ (n - k) * 10 ^ (n - k) = x then Some x else None)"
      using "1.prems" by (rule candidate_small) simp
    show ?thesis
    proof (cases "x div 10 ^ (n - k) * 10 ^ (n - k) = x")
      case True
      with False c show ?thesis
        by (simp add: shortest_decimal.simps [of x n k])
    next
      case differ: False
      with c have none: "candidate x (10 ^ (n - k)) = None" by simp
      from False none "1.prems" have "shortest_decimal x n (Suc k) = x"
        by (rule "1.IH")
      with False none show ?thesis
        by (simp add: shortest_decimal.simps [of x n k])
    qed
  qed
qed

lemma Number_toString_value_small: "v < 2 ^ 53 \<Longrightarrow> Number_toString_value v = v"
  by (simp add: Number_toString_value_def to_double_small shortest_decimal_small)

lemma getAmountBuffer_nat:
  "n < 2 ^ 53 \<Longrightarrow> getAmountBuffer (Num (int n)) = map (\<lambda>j. of_nat (n div 256 ^ j)) [0 ..< 8]"
proof -
  assume small: "n < 2 ^ 53"
  then have "int n < 2 ^ 53" by (simp flip: of_nat_less_iff)
  then have spelled: "Number_toString_value (int n) = int n"
    by (rule Number_toString_value_small)
  from small have "n < 2 ^ 64"
    by (rule less_le_trans) simp
  then have "padHexStart (hex_digits n) 16 = hex_fixed 16 n"
    by (rule padHexStart_nat)
  then show ?thesis
    using Buffer_from_hex_fixed [of 8 n] rev_be_bytes [of 8 n]
    by (simp add: getAmountBuffer_def spelled)
qed

text \<open>
  C9, for amounts that a double holds exactly. For a whole amount from \<open>0\<close> up to, not
  including, \<open>2^53\<close>, \<open>padHexStart\<close> pads the hexadecimal text to sixteen digits and
  \<open>getAmountBuffer\<close> returns exactly eight bytes, the little-endian encoding of the
  amount: byte \<open>j\<close> is the amount divided by \<open>256^j\<close>, modulo 256.
\<close>

theorem getAmountBuffer_little_endian:
  assumes "0 \<le> a" and "a < 2 ^ 53"
  shows "length (padHexStart (BigNumber_toString16 (Math_round (Num a))) 16) = 16
       \<and> length (getAmountBuffer (Num a)) = 8
       \<and> getAmountBuffer (Num a) = map (\<lambda>j. of_int (a div 256 ^ j)) [0 ..< 8]"
proof -
  from assms have n: "nat a < 2 ^ 53" by simp
  then have n64: "nat a < 2 ^ 64" by (rule less_le_trans) simp
  from assms(2) have spelled: "Number_toString_value a = a"
    by (rule Number_toString_value_small)
  have pad: "length (padHexStart (BigNumber_toString16 (Math_round (Num a))) 16) = 16"
    using assms padHexStart_nat [OF n64] by (simp add: length_hex_fixed spelled)
  have bytes: "getAmountBuffer (Num a) = map (\<lambda>j. of_nat (nat a div 256 ^ j)) [0 ..< 8]"
    using getAmountBuffer_nat [OF n] assms by simp
  have "(of_nat (nat a div 256 ^ j) :: byte) = of_int (a div 256 ^ j)" for j
  proof -
    have "int (nat a div 256 ^ j) = a div 256 ^ j"
      using assms by (simp add: zdiv_int)
    then show ?thesis
      by (metis of_int_of_nat_eq)
  qed
  with bytes have "getAmountBuffer (Num a) = map (\<lambda>j. of_int (a div 256 ^ j)) [0 ..< 8]"
    by simp
  with pad show ?thesis by simp
qed

theorem getAmountBuffer_little_endian_witness:
  "(0::int) \<le> 500 \<and> (500::int) < 2 ^ 53
   \<and> length (padHexStart (BigNumber_toString16 (Math_round (Num 500))) 16) = 16
   \<and> getAmountBuffer (Num 500) = [244, 1, 0, 0, 0, 0, 0, 0]"
proof -
  have h1: "(0::int) \<le> 500" and h2: "(500::int) < 2 ^ 53" by simp_all
  have "map (\<lambda>j. (of_int (500 div 256 ^ j) :: byte)) [0 ..< 8] = [244, 1, 0, 0, 0, 0, 0, 0]"
    by code_simp
  with getAmountBuffer_little_endian [OF h1 h2] h1 h2 show ?thesis by simp
qed

text \<open>
  C9, as the claim words it, fails from \<open>2^53\<close> on. The amount \<open>2^63\<close> is a double and is
  below \<open>2^64\<close>. \<open>new BigNumber\<close> reads it through its text, \<open>9223372036854776000\<close>, which
  is \<open>80000000000000c0\<close> in base 16: the buffer begins with the byte 192 where the
  little-endian encoding of \<open>2^63\<close> begins with 0.
\<close>

theorem getAmountBuffer_double_counterexample:
  "(0::int) \<le> 9223372036854775808 \<and> (9223372036854775808::int) < 2 ^ 64
   \<and> to_double 9223372036854775808 = 9223372036854775808
   \<and> Number_toString_value 9223372036854775808 = 9223372036854776000
   \<and> BigNumber_toString16 (Math_round (Num 9223372036854775808)) = ''80000000000000c0''
   \<and> getAmountBuffer (Num 9223372036854775808) = [192, 0, 0, 0, 0, 0, 0, 128]
   \<and> map (\<lambda>j. (of_int (9223372036854775808 div 256 ^ j) :: byte)) [0 ..< 8] = [0, 0, 0, 0, 0, 0, 0, 128]
   \<and> getAmountBuffer (Num 9223372036854775808) \<noteq>
       map (\<lambda>j. of_int (9223372036854775808 div 256 ^ j)) [0 ..< 8]"
proof -
  have range: "(0::int) \<le> 9223372036854775808 \<and> (9223372036854775808::int) < 2 ^ 64" by simp
  have double: "to_double 9223372036854775808 = 9223372036854775808" by code_simp
  have spelled: "Number_toString_value 9223372036854775808 = 9223372036854776000" by code_simp
  have hex: "hex_digits 9223372036854776000 = ''80000000000000c0''"
    by (simp add: hex_digits.simps hex_char_def)
  have written: "BigNumber_toString16 (Math_round (Num 9223372036854775808)) = ''80000000000000c0''"
    by (simp add: spelled hex)
  have decoded: "rev (Buffer_from_hex (padHexStart ''80000000000000c0'' 16)) = [192, 0, 0, 0, 0, 0, 0, 128]"
    by code_simp
  have buffer: "getAmountBuffer (Num 9223372036854775808) = [192, 0, 0, 0, 0, 0, 0, 128]"
    unfolding getAmountBuffer_def Let_def written by (rule decoded)
  have encoding: "map (\<lambda>j. (of_int (9223372036854775808 div 256 ^ j) :: byte)) [0 ..< 8] =
                    [0, 0, 0, 0, 0, 0, 0, 128]"
    by code_simp
  have differ: "getAmountBuffer (Num 9223372036854775808) \<noteq>
                  map (\<lambda>j. of_int (9223372036854775808 div 256 ^ j)) [0 ..< 8]"
    unfolding buffer encoding by simp
  from range double spelled written buffer encoding differ show ?thesis by blast
qed

subsection \<open>Used and unused addresses\<close>

lemma classify_all_append:
  "classify_all utxos st (xs @ ys) = classify_all utxos (classify_all utxos st xs) ys"
  by (induction xs arbitrary: st) simp_all

lemma classify_all_snoc:
  "classify_all utxos st (xs @ [a]) = classify utxos (classify_all utxos st xs) a"
  by (simp add: classify_all_append)

lemma get_set_key [simp]: "get_key k (set_key k v p) = v"
  by (simp add: get_key_def set_key_def)

lemma get_set_key_other [simp]: "k \<noteq> k' \<Longrightarrow> get_key k (set_key k' v p) = get_key k p"
  by (auto simp add: get_key_def set_key_def)

lemma classify_slot:
  "get_key k (uu_unusedAddress (classify utxos st a)) =
     (if a_change a = k then
        (if isUsed utxos a then None
         else if get_key k (uu_unusedAddress st) = None then Some a
         else get_key k (uu_unusedAddress st))
      else get_key k (uu_unusedAddress st))"
  by (auto simp: classify_def Let_def)

lemma classify_used:
  "uu_usedAddresses (classify utxos st a) =
     (if isUsed utxos a then uu_usedAddresses st @ [a] else uu_usedAddresses st)"
  by (simp add: classify_def Let_def)

lemma classify_all_used:
  "uu_usedAddresses (classify_all utxos st xs) = uu_usedAddresses st @ filter (isUsed utxos) xs"
  by (induction xs arbitrary: st) (simp_all add: classify_used)

lemma first_of_append:
  "first_of (xs @ ys) = (case first_of xs of None \<Rightarrow> first_of ys | Some x \<Rightarrow> Some x)"
  by (cases xs) simp_all

lemma first_of_None [simp]: "first_of xs = None \<longleftrightarrow> xs = []"
  by (cases xs) simp_all

lemma first_of_Some: "first_of xs = Some x \<Longrightarrow> x \<in> set xs"
  by (cases xs) auto

lemma after_last_used_snoc:
  "after_last_used utxos (xs @ [a]) = (if isUsed utxos a then [] else after_last_used utxos xs @ [a])"
  by (simp add: after_last_used_def)

lemma after_last_used_unused: "a \<in> set (after_last_used utxos xs) \<Longrightarrow> \<not> isUsed utxos a"
  by (auto simp: after_last_used_def dest: set_takeWhileD)

lemma after_last_used_all:
  "\<not> list_ex (isUsed utxos) xs \<Longrightarrow> after_last_used utxos xs = xs"
proof -
  assume "\<not> list_ex (isUsed utxos) xs"
  then have "takeWhile (\<lambda>a. \<not> isUsed utxos a) (rev xs) = rev xs"
    by (simp add: list_ex_iff takeWhile_eq_all_conv)
  then show ?thesis unfolding after_last_used_def by (simp only: rev_rev_ident)
qed

text \<open>
  The slot of a branch after the loop has run over a list, from any state: the first
  address after the last used one of the branch, and, while the branch has no used address,
  the candidate the state held or else the first address of the branch.
\<close>

lemma classify_all_slot:
  "get_key k (uu_unusedAddress (classify_all utxos st xs)) =
     (if list_ex (isUsed utxos) (branch k xs) then first_of (after_last_used utxos (branch k xs))
      else if get_key k (uu_unusedAddress st) = None then first_of (branch k xs)
      else get_key k (uu_unusedAddress st))"
proof (induction xs rule: rev_induct)
  case Nil
  then show ?case by (simp add: after_last_used_def branch_def)
next
  case (snoc a xs)
  show ?case
  proof (cases "a_change a = k")
    case False
    with snoc show ?thesis
      by (simp add: classify_all_snoc classify_slot branch_def)
  next
    case True
    with snoc show ?thesis
      by (auto simp add: classify_all_snoc classify_slot branch_def after_last_used_snoc
          first_of_append split: option.splits)
  qed
qed

lemma classify_all_slot_initial:
  "get_key k (uu_unusedAddress (classify_all utxos nothing_seen xs)) =
     first_of (after_last_used utxos (branch k xs))"
proof -
  have "get_key k (uu_unusedAddress nothing_seen) = None"
    by (simp add: nothing_seen_def get_key_def)
  then show ?thesis
    by (simp add: classify_all_slot after_last_used_all)
qed

lemma get_key_fallback:
  "get_key k (fallback xs p) = (case get_key k p of None \<Rightarrow> first_of xs | Some a \<Rightarrow> Some a)"
  by (cases k) (auto simp: fallback_def get_key_def Let_def split: option.splits)

lemma getAddressList_nonempty: "0 < n \<Longrightarrow> getAddressList e w n \<noteq> []"
  by (simp add: getAddressList_def getChangeAddresses_def getAddresses_def getLedgerAddresses_def)

text \<open>
  C5, as the source has it. Addresses are taken in list order. An address that an unspent
  output refers to is appended to the used addresses, and every such address, not only the
  first of its branch, clears the candidate of its branch; an address without unspent output
  becomes the candidate of its branch only if the branch has none; the other branch is left
  alone. So after the loop the used addresses are those of the list that an output refers
  to, in list order, and the candidate of a branch is the first address after the last used
  address of that branch, or none when the last address of the branch is used.
\<close>

theorem every_used_address_clears:
  "(isUsed utxos a \<longrightarrow>
      uu_usedAddresses (classify utxos st a) = uu_usedAddresses st @ [a]
      \<and> get_key (a_change a) (uu_unusedAddress (classify utxos st a)) = None)
   \<and> (\<not> isUsed utxos a \<longrightarrow>
      uu_usedAddresses (classify utxos st a) = uu_usedAddresses st
      \<and> get_key (a_change a) (uu_unusedAddress (classify utxos st a)) =
          (if get_key (a_change a) (uu_unusedAddress st) = None then Some a
           else get_key (a_change a) (uu_unusedAddress st)))
   \<and> get_key (\<not> a_change a) (uu_unusedAddress (classify utxos st a)) =
       get_key (\<not> a_change a) (uu_unusedAddress st)
   \<and> uu_usedAddresses (classify_all utxos nothing_seen xs) = filter (isUsed utxos) xs
   \<and> get_key k (uu_unusedAddress (classify_all utxos nothing_seen xs)) =
       first_of (after_last_used utxos (branch k xs))"
proof -
  have "uu_usedAddresses (classify_all utxos nothing_seen xs) = filter (isUsed utxos) xs"
    by (simp add: classify_all_used nothing_seen_def)
  then show ?thesis
    by (simp add: classify_slot classify_used classify_all_slot_initial)
qed

theorem every_used_address_clears_witness:
  "isUsed change_funds (change_address 2)
   \<and> get_key True (uu_unusedAddress (classify_all change_funds nothing_seen [change_address 0, change_address 1])) =
       Some (change_address 1)
   \<and> get_key True (uu_unusedAddress
        (classify change_funds
           (classify_all change_funds nothing_seen [change_address 0, change_address 1])
           (change_address 2))) = None
   \<and> get_key True (uu_unusedAddress (classify_all change_funds nothing_seen
        [change_address 0, change_address 1, change_address 2, change_address 3])) =
       Some (change_address 3)"
proof -
  let ?st = "classify_all change_funds nothing_seen [change_address 0, change_address 1]"
  let ?xs = "[change_address 0, change_address 1, change_address 2, change_address 3]"
  have used: "isUsed change_funds (change_address 2)" by code_simp
  have flag: "a_change (change_address 2) = True" by code_simp
  have before: "get_key True (uu_unusedAddress ?st) = Some (change_address 1)" by code_simp
  have last: "first_of (after_last_used change_funds (branch True ?xs)) = Some (change_address 3)"
    by code_simp
  from every_used_address_clears [of change_funds "change_address 2" ?st ?xs True] used flag before last
  show ?thesis by simp
qed

text \<open>
  C5, as the claim words it, fails. On the change branch address 0 is used, address 1 is
  not and is recorded as the candidate after the first used address, and address 2 is used
  again: the loop clears the candidate there. With a batch of four the change slot ends up
  at address 3 and not at address 1.
\<close>

theorem later_used_address_clears_counterexample:
  "isUsed change_funds (change_address 0)
   \<and> \<not> isUsed change_funds (change_address 1)
   \<and> isUsed change_funds (change_address 2)
   \<and> getChangeAddresses (example_env change_funds spend_all) (example_wallet ''bech32'') 0 3 =
       [change_address 0, change_address 1, change_address 2]
   \<and> get_key True (uu_unusedAddress (classify_all change_funds nothing_seen
        [change_address 0, change_address 1])) = Some (change_address 1)
   \<and> get_key True (uu_unusedAddress (classify_all change_funds nothing_seen
        [change_address 0, change_address 1, change_address 2])) = None
   \<and> getUnusedAddress (example_env change_funds spend_all) (example_wallet ''bech32'') True 4 =
       Some (change_address 3)"
  by code_simp

text \<open>
  C6, for a batch of at least one address. Each entry of the pair is an address, and it is
  either an address that no unspent output of the scan refers to or the address at index 0
  of the address list; the entry is the first address after the last used address of its
  branch and falls back to index 0 of the list when there is none (the last address of the
  branch is used). Every used address is referred to by an unspent output of the scan.
\<close>

theorem unused_pair_invariant:
  assumes "0 < n"
  shows "(\<exists>a. get_key k (uu_unusedAddress (getUsedUnusedAddresses e w n)) = Some a
            \<and> (\<not> isUsed (getUnspentTransactions e (getAddressList e w n)) a
                 \<or> first_of (getAddressList e w n) = Some a))
       \<and> get_key k (uu_unusedAddress (getUsedUnusedAddresses e w n)) =
           (case first_of (after_last_used (getUnspentTransactions e (getAddressList e w n))
                             (branch k (getAddressList e w n))) of
              None \<Rightarrow> first_of (getAddressList e w n)
            | Some a \<Rightarrow> Some a)
       \<and> (\<forall>a \<in> set (uu_usedAddresses (getUsedUnusedAddresses e w n)).
            isUsed (getUnspentTransactions e (getAddressList e w n)) a)"
proof -
  let ?xs = "getAddressList e w n"
  let ?utxos = "getUnspentTransactions e ?xs"
  let ?slot = "get_key k (uu_unusedAddress (getUsedUnusedAddresses e w n))"
  let ?candidate = "first_of (after_last_used ?utxos (branch k ?xs))"
  have slot: "?slot = (case ?candidate of None \<Rightarrow> first_of ?xs | Some a \<Rightarrow> Some a)"
    by (simp add: getUsedUnusedAddresses_def Let_def get_key_fallback classify_all_slot_initial)
  have used: "\<forall>a \<in> set (uu_usedAddresses (getUsedUnusedAddresses e w n)). isUsed ?utxos a"
    by (simp add: getUsedUnusedAddresses_def Let_def classify_all_used nothing_seen_def)
  have "\<exists>a. ?slot = Some a \<and> (\<not> isUsed ?utxos a \<or> first_of ?xs = Some a)"
  proof (cases ?candidate)
    case None
    from assms have "?xs \<noteq> []" by (rule getAddressList_nonempty)
    then obtain a where "first_of ?xs = Some a" by (cases ?xs) auto
    with None slot show ?thesis by simp
  next
    case (Some a)
    then have "a \<in> set (after_last_used ?utxos (branch k ?xs))"
      by (rule first_of_Some)
    then have "\<not> isUsed ?utxos a"
      by (rule after_last_used_unused)
    with Some slot show ?thesis by simp
  qed
  with slot used show ?thesis by blast
qed

theorem unused_pair_invariant_witness:
  "(0::nat) < 3
   \<and> getUnusedAddress (example_env change_funds spend_all) (example_wallet ''bech32'') True 3 =
       Some (change_address 0)
   \<and> isUsed (getUnspentTransactions (example_env change_funds spend_all)
               (getAddressList (example_env change_funds spend_all) (example_wallet ''bech32'') 3))
        (change_address 0)
   \<and> first_of (getAddressList (example_env change_funds spend_all) (example_wallet ''bech32'') 3) =
       Some (change_address 0)
   \<and> get_key True (uu_unusedAddress (getUsedUnusedAddresses (example_env change_funds spend_all)
                                        (example_wallet ''bech32'') 3)) =
       (case first_of (after_last_used
                         (getUnspentTransactions (example_env change_funds spend_all)
                            (getAddressList (example_env change_funds spend_all) (example_wallet ''bech32'') 3))
                         (branch True
                            (getAddressList (example_env change_funds spend_all) (example_wallet ''bech32'') 3))) of
          None \<Rightarrow> first_of (getAddressList (example_env change_funds spend_all) (example_wallet ''bech32'') 3)
        | Some a \<Rightarrow> Some a)"
proof -
  let ?e = "example_env change_funds spend_all" and ?w = "example_wallet ''bech32''"
  have pos: "(0::nat) < 3" by simp
  have slot: "getUnusedAddress ?e ?w True 3 = Some (change_address 0)" by code_simp
  have used: "isUsed (getUnspentTransactions ?e (getAddressList ?e ?w 3)) (change_address 0)"
    by code_simp
  have first: "first_of (getAddressList ?e ?w 3) = Some (change_address 0)" by code_simp
  from unused_pair_invariant [OF pos, of True ?e ?w] pos slot used first
  show ?thesis by blast
qed

text \<open>
  C6, as the claim words it, fails for a batch of no address: the address list is empty,
  its index 0 is \<open>undefined\<close>, and both entries of the pair are left without an address.
\<close>

theorem empty_batch_counterexample:
  "getAddressList (example_env funds spend_all) (example_wallet ''bech32'') 0 = []
   \<and> getUnusedAddress (example_env funds spend_all) (example_wallet ''bech32'') True 0 = None
   \<and> getUnusedAddress (example_env funds spend_all) (example_wallet ''bech32'') False 0 = None"
  by code_simp

subsection \<open>Looking an address up\<close>

lemma getAddresses_empty: "getAddresses e w index 0 change = []"
  by (simp add: getAddresses_def getLedgerAddresses_def)

text \<open>With a batch of no address the index never moves, and the loop returns nothing.\<close>

lemma loop_zero_batch_Some:
  assumes "getWalletAddress_loop e w address maxAddresses addressesPerCall index change = Some y"
  shows "\<not> (index < maxAddresses \<and> addressesPerCall = 0)"
proof (rule getWalletAddress_loop.raw_induct
        [where P = "\<lambda>e w address maxAddresses addressesPerCall index change y.
                      \<not> (index < maxAddresses \<and> addressesPerCall = 0)", OF _ assms], goal_cases)
  case (1 loop e w address maxAddresses addressesPerCall index change y)
  show ?case
  proof
    assume stuck: "index < maxAddresses \<and> addressesPerCall = 0"
    with 1(2) have "loop e w address maxAddresses addressesPerCall index change = Some y"
      by (simp add: getAddresses_empty)
    from 1(1) [OF this] stuck show False by simp
  qed
qed

lemma loop_zero_batch:
  "index < maxAddresses \<Longrightarrow> getWalletAddress_loop e w address maxAddresses 0 index change = None"
  using loop_zero_batch_Some [of e w address maxAddresses 0 index change]
  by (cases "getWalletAddress_loop e w address maxAddresses 0 index change") auto

lemma find_append_cases:
  "find P (xs @ ys) = (case find P xs of None \<Rightarrow> find P ys | Some x \<Rightarrow> Some x)"
  by (induction xs) simp_all

lemma getAddresses_add:
  "getAddresses e w s (n + m) c = getAddresses e w s n c @ getAddresses e w (s + n) m c"
proof -
  have "[s ..< s + (n + m)] = [s ..< s + n] @ [s + n ..< s + n + m]"
    using upt_add_eq_append [of s "s + n" m] by (simp add: add.assoc)
  then show ?thesis
    by (simp add: getAddresses_def getLedgerAddresses_def)
qed

lemma lookup_result_window:
  "lookup_result address (xs @ ys) =
     (case find (\<lambda>addr. equals addr address) xs of
        None \<Rightarrow> lookup_result address ys
      | Some addr \<Rightarrow> Inr addr)"
  by (simp add: lookup_result_def find_append_cases split: option.splits)

lemma window_split: "i < k \<Longrightarrow> (k - i) * b = b + (k - Suc i) * (b::nat)"
proof -
  assume "i < k"
  then have "k - i = Suc (k - Suc i)" by arith
  then show ?thesis by simp
qed


lemma loop_exit:
  "\<not> index < maxAddresses \<Longrightarrow>
   getWalletAddress_loop e w address maxAddresses b index change = Some (Inl ADDRESS_MISSING_IN_LEDGER)"
  by (subst getWalletAddress_loop.simps) simp

lemma loop_found:
  "index < maxAddresses \<Longrightarrow>
   find (\<lambda>addr. equals addr address) (getAddresses e w index b change) = Some a \<Longrightarrow>
   getWalletAddress_loop e w address maxAddresses b index change = Some (Inr a)"
  by (subst getWalletAddress_loop.simps) simp

lemma loop_next:
  "index < maxAddresses \<Longrightarrow>
   find (\<lambda>addr. equals addr address) (getAddresses e w index b change) = None \<Longrightarrow>
   getWalletAddress_loop e w address maxAddresses b index change =
     (if index + b = maxAddresses \<and> \<not> change
      then getWalletAddress_loop e w address maxAddresses b 0 True
      else getWalletAddress_loop e w address maxAddresses b (index + b) change)"
  by (subst getWalletAddress_loop.simps) simp

lemma loop_change_branch:
  assumes "0 < b"
  shows "i \<le> k \<Longrightarrow>
     getWalletAddress_loop e w address (k * b) b (i * b) True =
       Some (lookup_result address (getAddresses e w (i * b) ((k - i) * b) True))"
proof (induction "k - i" arbitrary: i)
  case 0
  then have "i = k" by simp
  then show ?case
    by (simp add: loop_exit getAddresses_empty lookup_result_def)
next
  case (Suc d)
  then have less: "i < k" and step: "d = k - Suc i" and le: "Suc i \<le> k" by simp_all
  from less assms have lt: "i * b < k * b" by simp
  let ?window = "getAddresses e w (i * b) b True"
  let ?later = "getAddresses e w (Suc i * b) ((k - Suc i) * b) True"
  have all: "getAddresses e w (i * b) ((k - i) * b) True = ?window @ ?later"
    using getAddresses_add [of e w "i * b" b "(k - Suc i) * b" True] window_split [OF less, of b]
    by (simp add: add.commute)
  show ?case
  proof (cases "find (\<lambda>addr. equals addr address) ?window")
    case None
    have "getWalletAddress_loop e w address (k * b) b (i * b) True =
          getWalletAddress_loop e w address (k * b) b (Suc i * b) True"
      using loop_next [OF lt None] by (simp add: add.commute)
    also have "\<dots> = Some (lookup_result address ?later)"
      by (rule Suc.hyps(1) [OF step le])
    finally show ?thesis
      using None by (simp only: all lookup_result_window option.case)
  next
    case (Some a)
    from loop_found [OF lt Some] Some show ?thesis
      by (simp only: all lookup_result_window option.case)
  qed
qed


lemma loop_non_change_branch:
  assumes "0 < b"
  shows "i < k \<Longrightarrow>
     getWalletAddress_loop e w address (k * b) b (i * b) False =
       Some (lookup_result address
               (getAddresses e w (i * b) ((k - i) * b) False @ getAddresses e w 0 (k * b) True))"
proof (induction "k - i" arbitrary: i)
  case 0
  then show ?case by simp
next
  case (Suc d)
  from Suc.prems assms have lt: "i * b < k * b" by simp
  let ?window = "getAddresses e w (i * b) b False"
  let ?later = "getAddresses e w (Suc i * b) ((k - Suc i) * b) False"
  let ?change = "getAddresses e w 0 (k * b) True"
  have all: "getAddresses e w (i * b) ((k - i) * b) False @ ?change = ?window @ (?later @ ?change)"
    using getAddresses_add [of e w "i * b" b "(k - Suc i) * b" False] window_split [OF Suc.prems, of b]
    by (simp add: add.commute)
  show ?case
  proof (cases "find (\<lambda>addr. equals addr address) ?window")
    case (Some a)
    from loop_found [OF lt Some] Some show ?thesis
      by (simp only: all lookup_result_window option.case)
  next
    case None
    show ?thesis
    proof (cases "Suc i = k")
      case True
      then have last: "i * b + b = k * b" by auto
      from True have "?later = []" by (simp add: getAddresses_empty)
      then have rest: "?later @ ?change = ?change" by simp
      have "getWalletAddress_loop e w address (k * b) b (i * b) False =
            getWalletAddress_loop e w address (k * b) b 0 True"
        using loop_next [OF lt None] last by simp
      also have "\<dots> = Some (lookup_result address ?change)"
        using loop_change_branch [OF assms, of 0 k e w address] by simp
      finally show ?thesis
        using None by (simp only: all rest lookup_result_window option.case)
    next
      case False
      with Suc.prems have less: "Suc i < k" by simp
      from Suc.hyps(2) have step: "d = k - Suc i" by simp
      from False assms have differ: "i * b + b \<noteq> k * b"
      proof -
        have "i * b + b = Suc i * b" by simp
        moreover from False assms have "Suc i * b \<noteq> k * b" by (simp only: mult_cancel2) simp
        ultimately show ?thesis by simp
      qed
      have "getWalletAddress_loop e w address (k * b) b (i * b) False =
            getWalletAddress_loop e w address (k * b) b (Suc i * b) False"
        using loop_next [OF lt None] differ by (simp add: add.commute)
      also have "\<dots> = Some (lookup_result address (?later @ ?change))"
        by (rule Suc.hyps(1) [OF step less])
      finally show ?thesis
        using None by (simp only: all lookup_result_window option.case)
    qed
  qed
qed

text \<open>
  When the batch is positive and divides the bound, the lookup is right: it returns the
  first address equal to the target among the addresses below the bound of the non-change
  branch, then of the change branch, and fails only when there is none.
\<close>

lemma getWalletAddress_batches_divide:
  assumes "0 < b"
  shows "getWalletAddress e w address (k * b) b =
     Some (lookup_result address (getAddresses e w 0 (k * b) False @ getAddresses e w 0 (k * b) True))"
proof (cases k)
  case 0
  then show ?thesis
    by (simp add: getWalletAddress_def loop_exit getAddresses_empty lookup_result_def)
next
  case (Suc j)
  then have "0 < k" by simp
  from loop_non_change_branch [OF assms this, of e w address] show ?thesis
    by (simp add: getWalletAddress_def)
qed

text \<open>
  C7 at \<open>maxAddresses = 3\<close> and a batch of 2. The address looked for is address 0 of the
  change branch. The loop scans the windows 0..1 and 2..3 of the non-change branch; the
  index is then 4, which is not equal to 3, so the switch to the change branch is skipped
  and the loop ends: the lookup fails although the change branch was never scanned. With a
  batch that divides the bound (4 and 2) the same address is found. With a batch of 0 the
  lookup does not return.
\<close>

theorem getWalletAddress_skips_change_branch:
  "a_address (derive_at (example_env [] spend_all) (example_wallet ''bech32'') True 0) = Some ''1/0''
   \<and> getWalletAddress (example_env [] spend_all) (example_wallet ''bech32'') ''1/0'' 3 2 =
       Some (Inl ADDRESS_MISSING_IN_LEDGER)
   \<and> map a_index (getAddresses (example_env [] spend_all) (example_wallet ''bech32'') 2 2 False) = [2, 3]
   \<and> getWalletAddress (example_env [] spend_all) (example_wallet ''bech32'') ''1/0'' 4 2 =
       Some (Inr (derive_at (example_env [] spend_all) (example_wallet ''bech32'') True 0))
   \<and> getWalletAddress (example_env [] spend_all) (example_wallet ''bech32'') ''1/0'' 3 0 = None"
proof -
  have stuck: "getWalletAddress (example_env [] spend_all) (example_wallet ''bech32'') ''1/0'' 3 0 = None"
    by (simp add: getWalletAddress_def loop_zero_batch)
  have "a_address (derive_at (example_env [] spend_all) (example_wallet ''bech32'') True 0) = Some ''1/0''
   \<and> getWalletAddress (example_env [] spend_all) (example_wallet ''bech32'') ''1/0'' 3 2 =
       Some (Inl ADDRESS_MISSING_IN_LEDGER)
   \<and> map a_index (getAddresses (example_env [] spend_all) (example_wallet ''bech32'') 2 2 False) = [2, 3]
   \<and> getWalletAddress (example_env [] spend_all) (example_wallet ''bech32'') ''1/0'' 4 2 =
       Some (Inr (derive_at (example_env [] spend_all) (example_wallet ''bech32'') True 0))"
    by code_simp
  with stuck show ?thesis by blast
qed

subsection \<open>Address formats\<close>

text \<open>
  C8, as the source has it. For an address format other than the three, the constructor
  does not fail: it returns a wallet that carries the format. On every wallet of such a
  format \<open>getAddressFromPublicKey\<close> does not fail either: it returns \<open>undefined\<close>.
\<close>

theorem unknown_format_no_error:
  assumes "addressType \<notin> {''legacy'', ''p2sh-segwit'', ''bech32''}"
  shows "(\<exists>path. constructor inherited net addressType =
            Inr \<lparr> w_network = net, w_derivationPath = path, w_addressType = addressType \<rparr>)
       \<and> (\<forall>w. constructor inherited net addressType = Inr w \<longrightarrow>
             getAddressFromPublicKey e w publicKey = None)
       \<and> (\<forall>w. w_addressType w = addressType \<longrightarrow> getAddressFromPublicKey e w publicKey = None)"
  using assms by (auto simp: constructor_def getAddressFromPublicKey_def)

theorem unknown_format_no_error_witness:
  "''taproot'' \<notin> {''legacy'', ''p2sh-segwit'', ''bech32''}
   \<and> constructor example_inherited example_network ''taproot'' = Inr (example_wallet ''taproot'')
   \<and> getAddressFromPublicKey (example_env [] spend_all) (example_wallet ''taproot'') ''key'' = None"
proof -
  have h: "''taproot'' \<notin> {''legacy'', ''p2sh-segwit'', ''bech32''}" by simp
  have c: "constructor example_inherited example_network ''taproot'' = Inr (example_wallet ''taproot'')"
    by (simp add: constructor_def example_wallet_def)
  from unknown_format_no_error
         [OF h, of example_inherited example_network "example_env [] spend_all" "''key''"] h c
  show ?thesis by blast
qed

text \<open>
  C8, as the claim words it, fails: for the format \<open>taproot\<close> the constructor returns a
  wallet whose derivation path begins with the text \<open>undefined\<close>, and
  \<open>getAddressFromPublicKey\<close> returns \<open>undefined\<close>; neither is the error
  \<open>UnsupportedAddressFormat\<close>.
\<close>

theorem unknown_format_counterexample:
  "constructor example_inherited example_network ''taproot'' =
     Inr \<lparr> w_network = example_network,
           w_derivationPath =
             ''undefined'' @ [CHR 0x27, CHR ''/'', CHR ''0'', CHR 0x27, CHR ''/'', CHR ''0'', CHR 0x27, CHR ''/''],
           w_addressType = ''taproot'' \<rparr>
   \<and> constructor example_inherited example_network ''taproot'' \<noteq> Inl UnsupportedAddressFormat
   \<and> getAddressFromPublicKey (example_env [] spend_all) (example_wallet ''taproot'') ''key'' = None"
  by code_simp

subsection \<open>Coin selection\<close>

lemma getInputs_trace: "fst (getInputs e utxos amount rate) = [Coinselect utxos (request amount) rate]"
  by (simp add: getInputs_def Let_def)

lemma coinselect_calls_append: "coinselect_calls (s @ t) = coinselect_calls s @ coinselect_calls t"
  by (induction s rule: coinselect_calls.induct) simp_all

lemma coinselect_calls_fee_rate: "coinselect_calls (fst (fee_rate e f)) = []"
  by (simp add: fee_rate_def split: option.splits)

text \<open>\<open>getInputsForAmount\<close> once the unspent outputs are at hand: one attempt, or two.\<close>

lemma getInputsForAmount_unfold:
  assumes "updated_utxos e w n = Inr updated"
  shows "getInputsForAmount e w amount feePerByte n =
     (let rate = snd (fee_rate e feePerByte);
          t0 = fst (fee_rate e feePerByte);
          first = getInputs e updated (Number_of amount) rate
      in if s_inputs (snd first) \<noteq> None then (t0 @ fst first, Inr (snd first))
         else
           (let retry = getInputs e updated (minus_number (BigNumber_of amount) (operand (s_fee (snd first)))) rate
            in if s_inputs (snd retry) \<noteq> None then (t0 @ fst first @ fst retry, Inr (snd retry))
               else (t0 @ fst first @ fst retry, Inl NOT_ENOUGHT_BALANCE)))"
  using assms
  by (simp add: getInputsForAmount_def Let_def split_beta)

lemma getInputsForAmount_error:
  assumes "updated_utxos e w n = Inl err"
  shows "getInputsForAmount e w amount feePerByte n = ([], Inl err)"
  using assms by (simp add: getInputsForAmount_def)



lemma plus_number_assoc: "plus_number (plus_number a b) c = plus_number a (plus_number b c)"
  by (cases a; cases b; cases c) simp_all

lemma plus_number_commute: "plus_number a b = plus_number b a"
  by (cases a; cases b) simp_all

lemma plus_number_zero [simp]: "plus_number a (Num 0) = a"
  by (cases a) simp_all

text \<open>
  C4, with what it takes from the coin selection library said. When the library answers
  with inputs and outputs, \<open>getInputs\<close> returns those inputs, the fee of the library and
  the target, and its change field is the first returned output whose id is not that of the
  request: the output itself, absent when there is none. If moreover the outputs are the
  request followed by at most one output, that one without the id of the request, and the
  answer is balanced (the input values sum to the output values plus the fee), then the
  input values sum to target plus fee plus the value of the change, taken as 0 when absent.
\<close>

theorem getInputs_relays_selection:
  assumes "cs_inputs (coinselect e utxos (request amount) rate) = Some ins"
      and "cs_outputs (coinselect e utxos (request amount) rate) = Some outs"
  shows "s_inputs (snd (getInputs e utxos amount rate)) = Some ins
       \<and> s_change (snd (getInputs e utxos amount rate)) =
           find (\<lambda>output. o_id output \<noteq> Some ''main'') outs
       \<and> s_fee (snd (getInputs e utxos amount rate)) = cs_fee (coinselect e utxos (request amount) rate)
       \<and> s_amount (snd (getInputs e utxos amount rate)) = amount
       \<and> (\<forall>rest fee.
             outs = request amount @ rest \<and> length rest \<le> 1
             \<and> list_all (\<lambda>c. o_id c \<noteq> Some ''main'') rest
             \<and> cs_fee (coinselect e utxos (request amount) rate) = Some fee
             \<and> strict_eq (sum_values (map u_value ins)) (plus_number (sum_values (map o_value outs)) fee)
             \<longrightarrow> s_change (snd (getInputs e utxos amount rate)) = first_of rest
                 \<and> strict_eq (sum_values (map u_value ins))
                     (plus_number (plus_number amount fee)
                        (change_value (s_change (snd (getInputs e utxos amount rate))))))"
proof -
  let ?sel = "snd (getInputs e utxos amount rate)"
  from assms have sel: "?sel =
      \<lparr> s_inputs = Some ins,
        s_change = find (\<lambda>output. o_id output \<noteq> Some ''main'') outs,
        s_fee = cs_fee (coinselect e utxos (request amount) rate), s_amount = amount \<rparr>"
    by (simp add: getInputs_def Let_def)
  have f1: "s_inputs ?sel = Some ins"
    and f2: "s_change ?sel = find (\<lambda>output. o_id output \<noteq> Some ''main'') outs"
    and f3: "s_fee ?sel = cs_fee (coinselect e utxos (request amount) rate)"
    and f4: "s_amount ?sel = amount"
    by (simp_all add: sel)
  have balance: "s_change ?sel = first_of rest
        \<and> strict_eq (sum_values (map u_value ins))
             (plus_number (plus_number amount fee) (change_value (s_change ?sel)))"
    if shape: "outs = request amount @ rest" and short: "length rest \<le> 1"
      and ids: "list_all (\<lambda>c. o_id c \<noteq> Some ''main'') rest"
      and balanced: "strict_eq (sum_values (map u_value ins)) (plus_number (sum_values (map o_value outs)) fee)"
    for rest fee
  proof -
    from short ids have change: "find (\<lambda>output. o_id output \<noteq> Some ''main'') (request amount @ rest) = first_of rest"
      by (cases rest) (simp_all add: request_def)
    from short have "sum_values (map o_value (request amount @ rest)) =
        plus_number amount (change_value (first_of rest))"
      by (cases rest) (simp_all add: request_def)
    with balanced shape have "strict_eq (sum_values (map u_value ins))
        (plus_number (plus_number amount fee) (change_value (first_of rest)))"
      by (simp add: plus_number_assoc plus_number_commute [of fee])
    with f2 change shape show ?thesis by simp
  qed
  from f1 f2 f3 f4 balance show ?thesis by blast
qed

theorem getInputs_relays_selection_witness:
  "cs_inputs (coinselect (example_env funds spend_all) [funded_utxo] (request (Num 1000)) (Num 3)) = Some [funded_utxo]
   \<and> cs_outputs (coinselect (example_env funds spend_all) [funded_utxo] (request (Num 1000)) (Num 3)) =
       Some (request (Num 1000) @ [\<lparr> o_id = None, o_value = Num 98400 \<rparr>])
   \<and> cs_fee (coinselect (example_env funds spend_all) [funded_utxo] (request (Num 1000)) (Num 3)) = Some (Num 600)
   \<and> s_change (snd (getInputs (example_env funds spend_all) [funded_utxo] (Num 1000) (Num 3))) =
       first_of [\<lparr> o_id = None, o_value = Num 98400 \<rparr>]
   \<and> strict_eq (sum_values (map u_value [funded_utxo]))
        (plus_number (plus_number (Num 1000) (Num 600))
           (change_value (s_change (snd (getInputs (example_env funds spend_all) [funded_utxo] (Num 1000) (Num 3))))))"
proof -
  let ?e = "example_env funds spend_all"
  let ?rest = "[\<lparr> o_id = None, o_value = Num 98400 \<rparr>]"
  have h1: "cs_inputs (coinselect ?e [funded_utxo] (request (Num 1000)) (Num 3)) = Some [funded_utxo]"
    by code_simp
  have h2: "cs_outputs (coinselect ?e [funded_utxo] (request (Num 1000)) (Num 3)) = Some (request (Num 1000) @ ?rest)"
    by code_simp
  have h3: "cs_fee (coinselect ?e [funded_utxo] (request (Num 1000)) (Num 3)) = Some (Num 600)"
    by code_simp
  have h4: "length ?rest \<le> 1" by simp
  have h5: "list_all (\<lambda>c. o_id c \<noteq> Some ''main'') ?rest" by simp
  have h6: "strict_eq (sum_values (map u_value [funded_utxo]))
              (plus_number (sum_values (map o_value (request (Num 1000) @ ?rest))) (Num 600))"
    by code_simp
  from getInputs_relays_selection [OF h1 h2] h1 h2 h3 h4 h5 h6 show ?thesis by blast
qed

text \<open>
  C4, as the claim words it, fails. \<open>getInputs\<close> checks no sum and takes the first only
  of the outputs that are not the request. A library that answers the target 5 on an
  unspent output of 10 with a fee of 1 and two change outputs of 2 gives a balanced answer,
  and the result has inputs of 10 against target, fee and change of 8.
\<close>

theorem first_change_only_counterexample:
  "s_inputs (snd (getInputs (example_env [] two_changes) [small_utxo] (Num 5) (Num 1))) = Some [small_utxo]
   \<and> cs_outputs (coinselect (example_env [] two_changes) [small_utxo] (request (Num 5)) (Num 1)) =
       Some (request (Num 5) @ [\<lparr> o_id = None, o_value = Num 2 \<rparr>, \<lparr> o_id = None, o_value = Num 2 \<rparr>])
   \<and> s_change (snd (getInputs (example_env [] two_changes) [small_utxo] (Num 5) (Num 1))) =
       Some \<lparr> o_id = None, o_value = Num 2 \<rparr>
   \<and> s_fee (snd (getInputs (example_env [] two_changes) [small_utxo] (Num 5) (Num 1))) = Some (Num 1)
   \<and> sum_values (map u_value [small_utxo]) = Num 10
   \<and> plus_number (plus_number (Num 5) (Num 1))
        (change_value (s_change (snd (getInputs (example_env [] two_changes) [small_utxo] (Num 5) (Num 1))))) = Num 8
   \<and> \<not> strict_eq (sum_values (map u_value [small_utxo]))
        (plus_number (plus_number (Num 5) (Num 1))
           (change_value (s_change (snd (getInputs (example_env [] two_changes) [small_utxo] (Num 5) (Num 1))))))"
  by code_simp

subsection \<open>Building the transaction\<close>

lemma rates_getInputsForAmount:
  "set (rates (fst (getInputsForAmount e w amount None n))) \<subseteq> {getFeePerByte e}"
proof (cases "updated_utxos e w n")
  case (Inl err)
  then show ?thesis by (simp add: getInputsForAmount_error rates_def)
next
  case (Inr updated)
  then show ?thesis
    by (simp add: getInputsForAmount_unfold Let_def rates_def coinselect_calls_append
        getInputs_trace fee_rate_def)
qed

lemma Array_toString_nonempty: "outputs \<noteq> [] \<Longrightarrow> Array_toString outputs \<noteq> []"
proof (cases outputs)
  case Nil
  assume "outputs \<noteq> []"
  with Nil show ?thesis by simp
next
  case (Cons x xs)
  then show ?thesis by (cases xs) (simp_all add: Array_toString_def)
qed

text \<open>Called with a list of payments that is not empty, coin selection is asked for \<open>NaN\<close>.\<close>

lemma targets_getInputsForAmount:
  "outputs \<noteq> [] \<Longrightarrow> set (targets (fst (getInputsForAmount e w (Outputs outputs) feePerByte n))) \<subseteq> {[NaN]}"
proof (cases "updated_utxos e w n")
  case (Inl err)
  then show ?thesis by (simp add: getInputsForAmount_error targets_def)
next
  case (Inr updated)
  assume "outputs \<noteq> []"
  then have "Array_toString outputs \<noteq> []"
    by (rule Array_toString_nonempty)
  with Inr show ?thesis
    by (simp add: getInputsForAmount_unfold Let_def targets_def coinselect_calls_append
        getInputs_trace coinselect_calls_fee_rate request_def)
qed

lemma coinselect_calls_assemble:
  "coinselect_calls (fst (assemble e w outputs data feePerByte)) =
   coinselect_calls (fst (getInputsForAmount e w (Outputs outputs) None 25))"
  by (simp add: assemble_def Let_def split: prod.splits sum.splits option.splits)

lemma assemble_ignores_rate:
  "assemble e w outputs data feePerByte = assemble e w outputs data None"
  by (simp add: assemble_def)

lemma coinselect_calls_build:
  "coinselect_calls (fst (internal_buildTransaction e w outputs data feePerByte)) =
   coinselect_calls (fst (getInputsForAmount e w (Outputs outputs) None 25))"
  using coinselect_calls_assemble [of e w outputs data feePerByte]
  by (auto simp add: internal_buildTransaction_def Let_def coinselect_calls_append
      split: prod.splits sum.splits option.splits)

lemma coinselect_calls_send:
  "coinselect_calls (fst (internal_sendTransaction e w outputs data feePerByte)) =
   coinselect_calls (fst (getInputsForAmount e w (Outputs outputs) None 25))"
  using coinselect_calls_build [of e w outputs data feePerByte]
  by (auto simp add: internal_sendTransaction_def coinselect_calls_append
      split: prod.splits sum.splits)

lemma targets_build:
  "outputs \<noteq> [] \<Longrightarrow> set (targets (fst (internal_buildTransaction e w outputs data feePerByte))) \<subseteq> {[NaN]}"
  using targets_getInputsForAmount [of outputs e w None 25]
  by (simp add: targets_def coinselect_calls_build)

lemma assemble_failed:
  "getInputsForAmount e w (Outputs outputs) None 25 = (t, Inl err) \<Longrightarrow>
   assemble e w outputs data f = (t, Inl err)"
  by (simp add: assemble_def)

lemma build_failed:
  "assemble e w outputs data f = (t, Inl err) \<Longrightarrow>
   internal_buildTransaction e w outputs data f = (t, Inl err)"
  by (simp add: internal_buildTransaction_def)

lemma assemble_ok:
  "getInputsForAmount e w (Outputs outputs) None 25 = (t, Inr sel) \<Longrightarrow>
   s_inputs sel = Some inputs \<Longrightarrow>
   ledgerOutputs_of e w (getUnusedAddress e w True 25) sel outputs data = Inr (ledgerOutputs, data') \<Longrightarrow>
   assemble e w outputs data f =
     (t, Inr \<lparr> as_unusedAddress = getUnusedAddress e w True 25,
               as_ledgerInputs = getLedgerInputs e inputs,
               as_paths = map u_derivationPath inputs,
               as_ledgerOutputs = ledgerOutputs,
               as_data = data' \<rparr>)"
  by (simp add: assemble_def)

text \<open>A run that reaches the signer has serialized the payments it was called with.\<close>

lemma build_ok:
  "assemble e w outputs data f = (t, Inr a) \<Longrightarrow> as_unusedAddress a = Some unusedAddress \<Longrightarrow>
   internal_buildTransaction e w outputs data f =
     (t @ [SerializeTransactionOutputs outputs,
           CreatePaymentTransactionNew (signer_call_of e w outputs a unusedAddress)],
      Inr (createPaymentTransactionNew e (signer_call_of e w outputs a unusedAddress), as_data a))"
  by (simp add: internal_buildTransaction_def Let_def)

text \<open>The list \<open>ledgerOutputs\<close> holds the metadata output and the change output, no payment.\<close>

lemma payments_never_assembled:
  assumes "ledgerOutputs_of e w unusedAddress sel outputs data = Inr (ledgerOutputs, data')"
  shows "ledgerOutputs =
     (case data of
        None \<Rightarrow> []
      | Some d \<Rightarrow> [\<lparr> lo_amount = getAmountBuffer (Num 0), lo_script = embed e (''J_'' @ eventName d) \<rparr>]) @
     (case s_change sel of
        None \<Rightarrow> []
      | Some change \<Rightarrow>
          (case toOutputScript e (script_target_of unusedAddress) (w_network w) of
             None \<Rightarrow> []
           | Some script \<Rightarrow> [\<lparr> lo_amount = getAmountBuffer (o_value change), lo_script = script \<rparr>]))"
  using assms
  by (auto simp: ledgerOutputs_of_def Let_def split: sum.splits option.splits)

text \<open>
  C10. The fee rate a caller gives to \<open>_buildTransaction\<close>, \<open>buildTransaction\<close>,
  \<open>_sendTransaction\<close> or \<open>sendTransaction\<close> changes nothing: the run is the run without
  a fee rate, and every call of the coin selection library is at the fee rate of the
  provider. In \<open>getInputsForAmount\<close> a fee rate of 0 is falsy: the rate is fetched from
  the provider, and the run is the run without a fee rate.
\<close>

theorem fee_rate_argument_never_forwarded:
  "internal_buildTransaction e w outputs data feePerByte = internal_buildTransaction e w outputs data None
   \<and> internal_sendTransaction e w outputs data feePerByte = internal_sendTransaction e w outputs data None
   \<and> buildTransaction e w dest amount data feePerByte = buildTransaction e w dest amount data None
   \<and> sendTransaction e w dest amount data feePerByte = sendTransaction e w dest amount data None
   \<and> set (rates (fst (internal_buildTransaction e w outputs data feePerByte))) \<subseteq> {getFeePerByte e}
   \<and> set (rates (fst (internal_sendTransaction e w outputs data feePerByte))) \<subseteq> {getFeePerByte e}
   \<and> fee_rate e (Some (Num 0)) = ([GetFeePerByte], getFeePerByte e)
   \<and> getInputsForAmount e w a (Some (Num 0)) n = getInputsForAmount e w a None n"
proof -
  have build: "internal_buildTransaction e w outputs data f = internal_buildTransaction e w outputs data None"
    for outputs f
    by (simp add: internal_buildTransaction_def assemble_ignores_rate [of e w outputs data f])
  have send: "internal_sendTransaction e w outputs data f = internal_sendTransaction e w outputs data None"
    for outputs f
    by (simp add: internal_sendTransaction_def build [of outputs f])
  have rate: "fee_rate e (Some (Num 0)) = fee_rate e None"
    by (simp add: fee_rate_def)
  have "set (rates (fst (internal_buildTransaction e w outputs data feePerByte))) \<subseteq> {getFeePerByte e}"
    using rates_getInputsForAmount [of e w "Outputs outputs" 25]
    by (simp add: rates_def coinselect_calls_build)
  moreover have "set (rates (fst (internal_sendTransaction e w outputs data feePerByte))) \<subseteq> {getFeePerByte e}"
    using rates_getInputsForAmount [of e w "Outputs outputs" 25]
    by (simp add: rates_def coinselect_calls_send)
  moreover have "getInputsForAmount e w a (Some (Num 0)) n = getInputsForAmount e w a None n"
  proof (cases "updated_utxos e w n")
    case (Inl err)
    then show ?thesis by (simp add: getInputsForAmount_error)
  next
    case (Inr updated)
    then show ?thesis by (simp add: getInputsForAmount_unfold rate)
  qed
  ultimately show ?thesis
    using build send rate
    by (simp add: buildTransaction_def sendTransaction_def fee_rate_def)
qed

theorem fee_rate_argument_never_forwarded_witness:
  "internal_buildTransaction (example_env funds spend_all) (example_wallet ''bech32'') [] None (Some (Num 3)) =
     internal_buildTransaction (example_env funds spend_all) (example_wallet ''bech32'') [] None None
   \<and> rates (fst (internal_buildTransaction (example_env funds spend_all) (example_wallet ''bech32'') []
                   None (Some (Num 3)))) = [Num 10]
   \<and> getFeePerByte (example_env funds spend_all) = Num 10"
proof -
  have "rates (fst (getInputsForAmount (example_env funds spend_all) (example_wallet ''bech32'')
                      (Outputs []) None 25)) = [Num 10]"
    by code_simp
  then have run: "rates (fst (internal_buildTransaction (example_env funds spend_all) (example_wallet ''bech32'') []
                           None None)) = [Num 10]"
    by (simp add: rates_def coinselect_calls_build)
  have rate: "getFeePerByte (example_env funds spend_all) = Num 10"
    by code_simp
  from fee_rate_argument_never_forwarded
         [of "example_env funds spend_all" "example_wallet ''bech32''" "[]" None "Some (Num 3)"]
       run rate
  show ?thesis by simp
qed

lemma run_select_NaN:
  "getInputsForAmount (example_env funds spend_all) (example_wallet ''bech32'') (Outputs [payment_1000]) None 25 =
     ([GetFeePerByte,
       Coinselect [funded_utxo] (request NaN) (Num 10),
       Coinselect [funded_utxo] (request NaN) (Num 10)],
      Inl NOT_ENOUGHT_BALANCE)"
  by code_simp

text \<open>
  C1 at one payment of 1000, with funds of 100000 at hand. \<open>buildTransaction\<close> hands the
  array of payments itself to \<open>getInputsForAmount\<close>; as a number the array is \<open>NaN\<close>. The
  coin selection library is asked for \<open>NaN\<close> on both attempts, where the payments sum to
  1000, and the build fails for lack of balance.
\<close>

theorem buildTransaction_target_not_a_number:
  "buildTransaction (example_env funds spend_all) (example_wallet ''bech32'') ''dest'' (Num 1000) None None =
     ([GetFeePerByte,
       Coinselect [funded_utxo] (request NaN) (Num 10),
       Coinselect [funded_utxo] (request NaN) (Num 10)],
      Inl NOT_ENOUGHT_BALANCE)
   \<and> targets (fst (buildTransaction (example_env funds spend_all) (example_wallet ''bech32'')
                     ''dest'' (Num 1000) None None)) = [[NaN], [NaN]]
   \<and> sum_values (map value [payment_1000]) = Num 1000"
proof -
  have "buildTransaction (example_env funds spend_all) (example_wallet ''bech32'') ''dest'' (Num 1000) None None =
     ([GetFeePerByte,
       Coinselect [funded_utxo] (request NaN) (Num 10),
       Coinselect [funded_utxo] (request NaN) (Num 10)],
      Inl NOT_ENOUGHT_BALANCE)"
    using build_failed [OF assemble_failed [OF run_select_NaN]]
    by (simp add: buildTransaction_def payment_1000_def)
  then show ?thesis
    by (simp add: targets_def request_def payment_1000_def)
qed

lemma run_generous:
  "getInputsForAmount (example_env funds generous) (example_wallet ''bech32'') (Outputs [payment_1000]) None 25 =
     ([GetFeePerByte, Coinselect [funded_utxo] (request NaN) (Num 10)], Inr selection_500)"
  by code_simp

lemma run_unused:
  "getUnusedAddress (example_env funds generous) (example_wallet ''bech32'') True 25 = Some first_change_address"
  by code_simp

lemma run_ledgerOutputs:
  "ledgerOutputs_of (example_env funds generous) (example_wallet ''bech32'') (Some first_change_address)
     selection_500 [payment_1000] (Some new_contract) =
     Inr ([\<lparr> lo_amount = [0, 0, 0, 0, 0, 0, 0, 0], lo_script = ''embed:J_NEW'' \<rparr>,
           \<lparr> lo_amount = [244, 1, 0, 0, 0, 0, 0, 0], lo_script = ''script:1/0'' \<rparr>],
          Some new_contract)"
  by code_simp

lemma run_payment_outputs:
  "payment_outputs (example_env funds generous) (example_wallet ''bech32'') (Some NaN) [payment_1000] =
     Inr [\<lparr> lo_amount = [232, 3, 0, 0, 0, 0, 0, 0], lo_script = ''script:dest'' \<rparr>]"
  by code_simp

lemma run_assemble:
  "assemble (example_env funds generous) (example_wallet ''bech32'') [payment_1000] (Some new_contract) None =
     ([GetFeePerByte, Coinselect [funded_utxo] (request NaN) (Num 10)],
      Inr \<lparr> as_unusedAddress = Some first_change_address,
            as_ledgerInputs = getLedgerInputs (example_env funds generous) [funded_utxo],
            as_paths = map u_derivationPath [funded_utxo],
            as_ledgerOutputs =
              [\<lparr> lo_amount = [0, 0, 0, 0, 0, 0, 0, 0], lo_script = ''embed:J_NEW'' \<rparr>,
               \<lparr> lo_amount = [244, 1, 0, 0, 0, 0, 0, 0], lo_script = ''script:1/0'' \<rparr>],
            as_data = Some new_contract \<rparr>)"
  using assemble_ok [OF run_generous, of "[funded_utxo]" "Some new_contract" _ _ None] run_ledgerOutputs
  by (simp add: run_unused selection_500_def)

text \<open>
  C2 at one payment of 1000 with metadata, on a coin selection that returns the funds and
  a change of 500. The callback builds the payment output, and \<open>concat\<close> leaves the list
  without it: the assembled list is the metadata output and the change output. What is
  serialized for the signer is not that list but the list of payments the method was
  called with.
\<close>

theorem buildTransaction_serializes_request:
  "map_sum id as_ledgerOutputs
     (snd (assemble (example_env funds generous) (example_wallet ''bech32'') [payment_1000]
             (Some new_contract) None)) =
     Inr [\<lparr> lo_amount = [0, 0, 0, 0, 0, 0, 0, 0], lo_script = ''embed:J_NEW'' \<rparr>,
          \<lparr> lo_amount = [244, 1, 0, 0, 0, 0, 0, 0], lo_script = ''script:1/0'' \<rparr>]
   \<and> payment_outputs (example_env funds generous) (example_wallet ''bech32'') (Some NaN) [payment_1000] =
       Inr [\<lparr> lo_amount = [232, 3, 0, 0, 0, 0, 0, 0], lo_script = ''script:dest'' \<rparr>]
   \<and> serialized (fst (internal_buildTransaction (example_env funds generous) (example_wallet ''bech32'')
                        [payment_1000] (Some new_contract) None)) = [[payment_1000]]
   \<and> snd (internal_buildTransaction (example_env funds generous) (example_wallet ''bech32'')
             [payment_1000] (Some new_contract) None) = Inr (''signed'', Some new_contract)"
proof -
  have signed: "createPaymentTransactionNew (example_env funds generous) c = ''signed''" for c
    by (simp add: example_env_def)
  have built: "internal_buildTransaction (example_env funds generous) (example_wallet ''bech32'')
                 [payment_1000] (Some new_contract) None =
      ([GetFeePerByte, Coinselect [funded_utxo] (request NaN) (Num 10),
        SerializeTransactionOutputs [payment_1000],
        CreatePaymentTransactionNew
          (signer_call_of (example_env funds generous) (example_wallet ''bech32'') [payment_1000]
             \<lparr> as_unusedAddress = Some first_change_address,
               as_ledgerInputs = getLedgerInputs (example_env funds generous) [funded_utxo],
               as_paths = map u_derivationPath [funded_utxo],
               as_ledgerOutputs =
                 [\<lparr> lo_amount = [0, 0, 0, 0, 0, 0, 0, 0], lo_script = ''embed:J_NEW'' \<rparr>,
                  \<lparr> lo_amount = [244, 1, 0, 0, 0, 0, 0, 0], lo_script = ''script:1/0'' \<rparr>],
               as_data = Some new_contract \<rparr>
             first_change_address)],
       Inr (''signed'', Some new_contract))"
    using build_ok [OF run_assemble, of first_change_address] by (simp add: signed)
  have assembled: "map_sum id as_ledgerOutputs
     (snd (assemble (example_env funds generous) (example_wallet ''bech32'') [payment_1000]
             (Some new_contract) None)) =
     Inr [\<lparr> lo_amount = [0, 0, 0, 0, 0, 0, 0, 0], lo_script = ''embed:J_NEW'' \<rparr>,
          \<lparr> lo_amount = [244, 1, 0, 0, 0, 0, 0, 0], lo_script = ''script:1/0'' \<rparr>]"
    by (simp add: run_assemble)
  have handed: "serialized (fst (internal_buildTransaction (example_env funds generous)
                                   (example_wallet ''bech32'') [payment_1000] (Some new_contract) None)) =
                [[payment_1000]]"
    by (simp add: built)
  have result: "snd (internal_buildTransaction (example_env funds generous) (example_wallet ''bech32'')
                       [payment_1000] (Some new_contract) None) = Inr (''signed'', Some new_contract)"
    by (simp add: built)
  from assembled run_payment_outputs handed result show ?thesis by blast
qed

end
